theory Spec2Isabelle
  imports Complex_Main
begin

section \<open>Python values used by the composition service\<close>

text \<open>
  The development embeds \<^verbatim>\<open>src/services/composition.py\<close> (class
  \<^verbatim>\<open>CompositionService\<close>). Python integers are \<open>int\<close>. Python floats are
  modelled by exact rationals: every float constant of the source (0.375, 0.5, 1.0, ...)
  is a rational, and the rounding of IEEE arithmetic is not modelled. Strings are lists
  of 8-bit characters, read as the code points 0..255.

  An exception is a value. \<open>InvalidLiteral s\<close> is the \<^verbatim>\<open>ValueError\<close> that
  \<^verbatim>\<open>int(s, 16)\<close> raises, \<open>IndexError\<close> the error of an index out of range,
  \<open>KeyError k\<close> the error of a missing dictionary key, \<open>FileNotFoundError m\<close>
  the error the service raises for a missing file, \<open>External m\<close> an exception
  raised inside a library or a collaborator (the rasterizer, the file system, the
  network, the storage service), and
  \<open>ValueError prefix e\<close> the \<^verbatim>\<open>ValueError(f"prefix{str(e)}")\<close> that the
  service's handlers raise for a caught exception \<open>e\<close>.
\<close>

datatype exn =
    InvalidLiteral string
  | IndexError
  | KeyError string
  | FileNotFoundError string
  | External string
  | ValueError string exn

text \<open>Sequencing of statements that may raise: the first exception ends the block.\<close>

definition bind :: "exn + 'a \<Rightarrow> ('a \<Rightarrow> exn + 'b) \<Rightarrow> exn + 'b" where
  "bind m f = (case m of Inl e \<Rightarrow> Inl e | Inr v \<Rightarrow> f v)"

text \<open>\<^verbatim>\<open>int(x)\<close> of a float truncates toward zero.\<close>

definition py_int :: "rat \<Rightarrow> int" where
  "py_int q = (if q < 0 then - \<lfloor>- q\<rfloor> else \<lfloor>q\<rfloor>)"

section \<open>The builtin \<^verbatim>\<open>int(s, 16)\<close>\<close>

text \<open>
  \<^verbatim>\<open>int(s, 16)\<close> strips surrounding whitespace, reads an optional sign, an
  optional prefix \<^verbatim>\<open>0x\<close> or \<^verbatim>\<open>0X\<close> (after which one underscore may
  stand), and then a non-empty run of hexadecimal digits in which single underscores may
  separate digits. Anything else raises \<^verbatim>\<open>ValueError\<close>.
\<close>

definition is_space :: "char \<Rightarrow> bool" where
  "is_space c = (let n = (of_char c :: nat) in
     n = 32 \<or> (9 \<le> n \<and> n \<le> 13) \<or> (28 \<le> n \<and> n \<le> 31) \<or> n = 133 \<or> n = 160)"

definition hex_val :: "char \<Rightarrow> int option" where
  "hex_val c = (let n = (of_char c :: nat) in
     if 48 \<le> n \<and> n \<le> 57 then Some (int n - 48)
     else if 97 \<le> n \<and> n \<le> 102 then Some (int n - 87)
     else if 65 \<le> n \<and> n \<le> 70 then Some (int n - 55)
     else None)"

fun hex_digits :: "int \<Rightarrow> string \<Rightarrow> int option" where
  "hex_digits acc [] = Some acc"
| "hex_digits acc [c] =
     (case hex_val c of None \<Rightarrow> None | Some v \<Rightarrow> Some (acc * 16 + v))"
| "hex_digits acc (c # d # ds) =
     (case hex_val c of
        None \<Rightarrow> None
      | Some v \<Rightarrow>
          if d = CHR ''_'' then
            (case ds of [] \<Rightarrow> None
             | e # es \<Rightarrow> if e = CHR ''_'' then None else hex_digits (acc * 16 + v) ds)
          else hex_digits (acc * 16 + v) (d # ds))"

definition strip_space :: "string \<Rightarrow> string" where
  "strip_space s = rev (dropWhile is_space (rev (dropWhile is_space s)))"

definition drop_prefix16 :: "string \<Rightarrow> string" where
  "drop_prefix16 s =
     (case s of
        z # x # rest \<Rightarrow>
          if z = CHR ''0'' \<and> (x = CHR ''x'' \<or> x = CHR ''X'') then
            (case rest of u # rest' \<Rightarrow> if u = CHR ''_'' then rest' else rest | [] \<Rightarrow> rest)
          else s
      | _ \<Rightarrow> s)"

definition int16 :: "string \<Rightarrow> exn + int" where
  "int16 s =
     (let t = strip_space s;
          (neg, u) = (case t of
                        c # cs \<Rightarrow> if c = CHR ''-'' then (True, cs)
                                  else if c = CHR ''+'' then (False, cs)
                                  else (False, t)
                      | [] \<Rightarrow> (False, t));
          d = drop_prefix16 u
      in if d = [] then Inl (InvalidLiteral s)
         else (case hex_digits 0 d of
                 None \<Rightarrow> Inl (InvalidLiteral s)
               | Some n \<Rightarrow> Inr (if neg then - n else n)))"

section \<open>ColorModel: \<^verbatim>\<open>_hex_to_rgba\<close>\<close>

type_synonym rgba = "int \<times> int \<times> int \<times> int"

text \<open>The slice \<^verbatim>\<open>s[i:j]\<close> for \<open>0 \<le> i \<le> j\<close>.\<close>

definition slice :: "string \<Rightarrow> nat \<Rightarrow> nat \<Rightarrow> string" where
  "slice s i j = take (j - i) (drop i s)"

text \<open>
  \<^verbatim>\<open>_hex_to_rgba\<close> (lines 422-456). \<^verbatim>\<open>lstrip('#')\<close> removes every
  leading \<^verbatim>\<open>#\<close>. In the branches of length 4 and 3 the indices 0..3 are in
  range, so \<^verbatim>\<open>hex_color[i]\<close> is the one-character slice.
\<close>

definition hex_to_rgba :: "string \<Rightarrow> exn + rgba" where
  "hex_to_rgba hex_color =
     (if take 1 hex_color = ''#'' then
        (let h = dropWhile (\<lambda>c. c = CHR ''#'') hex_color in
         if length h = 8 then
           bind (int16 (slice h 0 2)) (\<lambda>r.
           bind (int16 (slice h 2 4)) (\<lambda>g.
           bind (int16 (slice h 4 6)) (\<lambda>b.
           bind (int16 (slice h 6 8)) (\<lambda>a. Inr (r, g, b, a)))))
         else if length h = 6 then
           bind (int16 (slice h 0 2)) (\<lambda>r.
           bind (int16 (slice h 2 4)) (\<lambda>g.
           bind (int16 (slice h 4 6)) (\<lambda>b. Inr (r, g, b, 255))))
         else if length h = 4 then
           bind (int16 (slice h 0 1)) (\<lambda>r.
           bind (int16 (slice h 1 2)) (\<lambda>g.
           bind (int16 (slice h 2 3)) (\<lambda>b.
           bind (int16 (slice h 3 4)) (\<lambda>a. Inr (r * 17, g * 17, b * 17, a * 17)))))
         else if length h = 3 then
           bind (int16 (slice h 0 1)) (\<lambda>r.
           bind (int16 (slice h 1 2)) (\<lambda>g.
           bind (int16 (slice h 2 3)) (\<lambda>b. Inr (r * 17, g * 17, b * 17, 255))))
         else Inr (255, 255, 255, 255))
      else Inr (255, 255, 255, 255))"

section \<open>The drawing surface and the library functions\<close>

text \<open>
  A font handle is what \<^verbatim>\<open>ImageFont.truetype(name, size)\<close> or
  \<^verbatim>\<open>ImageFont.load_default()\<close> returned. A fill is what the service passes as
  \<^verbatim>\<open>fill=\<close>: a colour string, handed to the rasterizer unparsed, or an RGBA
  tuple. The state of an \<^verbatim>\<open>ImageDraw\<close> object is the list of the
  \<^verbatim>\<open>draw.text\<close> calls performed on it, oldest first.
\<close>

datatype font = FreeTypeFont string int | DefaultFont

datatype fill = FillHex string | FillRGBA rgba

datatype draw_call = DrawText "int \<times> int" string fill font

text \<open>
  The library functions the renderer calls are parameters:
  \<open>textbbox\<close> is \<^verbatim>\<open>draw.textbbox((0, 0), text, font=font)\<close>, which returns
  (left, top, right, bottom) or raises; \<open>draw_err\<close> tells whether the rasterizer
  raises on a \<^verbatim>\<open>draw.text\<close> call (for instance on a colour string it cannot
  read); \<open>cos_deg a\<close> and \<open>sin_deg a\<close> stand for
  \<^verbatim>\<open>math.cos(math.radians(a))\<close> and \<^verbatim>\<open>math.sin(math.radians(a))\<close>.
\<close>

record lib =
  textbbox :: "font \<Rightarrow> string \<Rightarrow> exn + (int \<times> int \<times> int \<times> int)"
  draw_err :: "draw_call \<Rightarrow> exn option"
  cos_deg :: "rat \<Rightarrow> rat"
  sin_deg :: "rat \<Rightarrow> rat"

definition draw_text ::
  "lib \<Rightarrow> int \<times> int \<Rightarrow> string \<Rightarrow> fill \<Rightarrow> font \<Rightarrow> draw_call list \<Rightarrow> exn + draw_call list" where
  "draw_text L xy text fl font draw =
     (case draw_err L (DrawText xy text fl font) of
        Some e \<Rightarrow> Inl e
      | None \<Rightarrow> Inr (draw @ [DrawText xy text fl font]))"

text \<open>A \<^verbatim>\<open>for\<close> loop whose body may raise and updates the state.\<close>

fun for_each :: "'a list \<Rightarrow> ('a \<Rightarrow> 's \<Rightarrow> exn + 's) \<Rightarrow> 's \<Rightarrow> exn + 's" where
  "for_each [] body s = Inr s"
| "for_each (x # xs) body s =
     (case body x s of Inl e \<Rightarrow> Inl e | Inr s' \<Rightarrow> for_each xs body s')"

text \<open>\<^verbatim>\<open>xs[i]\<close> on a list: a negative index counts from the end.\<close>

definition py_index :: "'a list \<Rightarrow> int \<Rightarrow> exn + 'a" where
  "py_index xs i =
     (if 0 \<le> i \<and> i < int (length xs) then Inr (xs ! nat i)
      else if i < 0 \<and> - int (length xs) \<le> i then Inr (xs ! nat (int (length xs) + i))
      else Inl IndexError)"

section \<open>Effect specifications\<close>

text \<open>
  The \<^verbatim>\<open>effects\<close> dictionary. A key that is absent is \<open>None\<close>, so that
  \<^verbatim>\<open>d.get(key, default)\<close> is \<open>get_or\<close>. The values have the types the
  service computes with: offsets, widths, radii and layer counts are integers,
  opacities, angles and distances are numbers, colours are strings. The key
  \<^verbatim>\<open>blur\<close>, which the renderer reads only to log it, and the keys it never
  reads are left out; a dictionary holding only such keys is drawn as one without
  effects, as the empty dictionary is.
\<close>

record settings =
  s_offset :: "int list option"
  s_color :: "string option"
  s_opacity :: "rat option"
  s_width :: "int option"
  s_radius :: "int option"
  s_layers :: "int option"
  s_angle :: "rat option"
  s_distance :: "rat option"
  s_color_gradient :: "string list option"

record legacy_shadow =
  l_offset :: "int list option"
  l_color :: "string option"

record effects =
  e_type :: "string option"
  e_settings :: "settings option"
  e_shadow :: "legacy_shadow option"

definition get_or :: "'a option \<Rightarrow> 'a \<Rightarrow> 'a" where
  "get_or v d = (case v of None \<Rightarrow> d | Some x \<Rightarrow> x)"

definition empty_settings :: settings where
  "empty_settings = \<lparr>s_offset = None, s_color = None, s_opacity = None, s_width = None,
     s_radius = None, s_layers = None, s_angle = None, s_distance = None,
     s_color_gradient = None\<rparr>"

text \<open>\<^verbatim>\<open>not effects\<close> for a dictionary: it has no key.\<close>

definition no_keys :: "effects \<Rightarrow> bool" where
  "no_keys e = (e_type e = None \<and> e_settings e = None \<and> e_shadow e = None)"

text \<open>The position argument: a tuple, a dictionary, or anything else.\<close>

datatype position = PosTuple "int list" | PosDict "string \<rightharpoonup> int" | PosOther

section \<open>EffectRenderer: \<^verbatim>\<open>_apply_text_effects\<close>\<close>

text \<open>
  The tuple \<^verbatim>\<open>(c[0], c[1], c[2], int(255 * opacity))\<close> of lines 290, 312
  and 342, built from a parsed settings colour and an opacity.
\<close>

definition with_opacity :: "rgba \<Rightarrow> rat \<Rightarrow> rgba" where
  "with_opacity c opacity =
     (case c of (r, g, b, a) \<Rightarrow> (r, g, b, py_int (255 * opacity)))"

text \<open>The branch \<^verbatim>\<open>effect_type == 'shadow'\<close> (lines 273-300).\<close>

definition shadow_effect ::
  "lib \<Rightarrow> draw_call list \<Rightarrow> string \<Rightarrow> font \<Rightarrow> string \<Rightarrow> settings \<Rightarrow> int \<Rightarrow> int
     \<Rightarrow> exn + draw_call list" where
  "shadow_effect L draw text font color st centered_x centered_y =
     (let shadow_offset = get_or (s_offset st) [5, 5];
          shadow_color = get_or (s_color st) ''#000000'';
          shadow_opacity = get_or (s_opacity st) (1 / 2);
          (offset_x, offset_y) =
            (if length shadow_offset \<ge> 2 then (shadow_offset ! 0, shadow_offset ! 1)
             else (5, 5))
      in bind (hex_to_rgba shadow_color) (\<lambda>parsed.
         let shadow_rgba = with_opacity parsed shadow_opacity;
             shadow_x = centered_x + offset_x;
             shadow_y = centered_y + offset_y
         in bind (draw_text L (shadow_x, shadow_y) text (FillRGBA shadow_rgba) font draw) (\<lambda>draw.
            draw_text L (centered_x, centered_y) text (FillHex color) font draw)))"

text \<open>
  The branch \<^verbatim>\<open>effect_type == 'outline'\<close> (lines 302-330);
  \<^verbatim>\<open>range(-w, w + 1)\<close> is \<open>[- w..w]\<close>.
\<close>

definition outline_effect ::
  "lib \<Rightarrow> draw_call list \<Rightarrow> string \<Rightarrow> font \<Rightarrow> string \<Rightarrow> settings \<Rightarrow> int \<Rightarrow> int
     \<Rightarrow> exn + draw_call list" where
  "outline_effect L draw text font color st centered_x centered_y =
     (let outline_width = get_or (s_width st) 2;
          outline_color = get_or (s_color st) ''#000000'';
          outline_opacity = get_or (s_opacity st) 1
      in bind (hex_to_rgba outline_color) (\<lambda>parsed.
         let outline_rgba = with_opacity parsed outline_opacity
         in bind (for_each [- outline_width..outline_width] (\<lambda>offset_x.
                    for_each [- outline_width..outline_width] (\<lambda>offset_y draw.
                      if offset_x = 0 \<and> offset_y = 0 then Inr draw
                      else draw_text L (centered_x + offset_x, centered_y + offset_y) text
                             (FillRGBA outline_rgba) font draw)) draw) (\<lambda>draw.
            draw_text L (centered_x, centered_y) text (FillHex color) font draw)))"

text \<open>
  The branch \<^verbatim>\<open>effect_type == 'glow'\<close> (lines 332-366);
  \<^verbatim>\<open>range(1, steps + 1)\<close> is \<open>[1..steps]\<close> and
  \<^verbatim>\<open>range(0, 360, 30)\<close> the twelve angles listed.
\<close>

definition glow_angles :: "int list" where
  "glow_angles = [0, 30, 60, 90, 120, 150, 180, 210, 240, 270, 300, 330]"

definition glow_effect ::
  "lib \<Rightarrow> draw_call list \<Rightarrow> string \<Rightarrow> font \<Rightarrow> string \<Rightarrow> settings \<Rightarrow> int \<Rightarrow> int
     \<Rightarrow> exn + draw_call list" where
  "glow_effect L draw text font color st centered_x centered_y =
     (let glow_color = get_or (s_color st) ''#FFFFFF'';
          glow_radius = get_or (s_radius st) 10;
          glow_opacity = get_or (s_opacity st) (7 / 10)
      in bind (hex_to_rgba glow_color) (\<lambda>parsed.
         let glow_rgba = with_opacity parsed glow_opacity;
             steps = min glow_radius 20
         in bind (for_each [1..steps] (\<lambda>i.
                    let current_radius = (of_int i / of_int steps) * of_int glow_radius;
                        current_opacity = glow_opacity * (1 - of_int i / of_int steps);
                        current_rgba = (case glow_rgba of (r, g, b, a) \<Rightarrow>
                                          (r, g, b, py_int (255 * current_opacity)))
                    in for_each glow_angles (\<lambda>angle draw.
                         let offset_x = py_int (current_radius * cos_deg L (of_int angle));
                             offset_y = py_int (current_radius * sin_deg L (of_int angle))
                         in draw_text L (centered_x + offset_x, centered_y + offset_y) text
                              (FillRGBA current_rgba) font draw)) draw) (\<lambda>draw.
            draw_text L (centered_x, centered_y) text (FillHex color) font draw)))"

text \<open>
  The branch \<^verbatim>\<open>effect_type == '3d_depth'\<close> (lines 368-396);
  \<^verbatim>\<open>range(layers, 0, -1)\<close> is \<open>rev [1..layers]\<close>.
\<close>

definition depth_effect ::
  "lib \<Rightarrow> draw_call list \<Rightarrow> string \<Rightarrow> font \<Rightarrow> string \<Rightarrow> settings \<Rightarrow> int \<Rightarrow> int
     \<Rightarrow> exn + draw_call list" where
  "depth_effect L draw text font color st centered_x centered_y =
     (let layers = get_or (s_layers st) 10;
          angle = get_or (s_angle st) 45;
          distance = get_or (s_distance st) 2;
          color_gradient = get_or (s_color_gradient st) [''#333333'', ''#666666'', ''#999999''];
          dx = cos_deg L angle * distance;
          dy = sin_deg L angle * distance
      in bind (for_each (rev [1..layers]) (\<lambda>i draw.
                 let color_index = min (py_int ((of_int i / of_int layers)
                                          * of_int (int (length color_gradient) - 1)))
                                       (int (length color_gradient) - 1)
                 in bind (py_index color_gradient color_index) (\<lambda>layer_color.
                    let layer_x = centered_x - py_int (of_int i * dx);
                        layer_y = centered_y - py_int (of_int i * dy)
                    in draw_text L (layer_x, layer_y) text (FillHex layer_color) font draw)) draw)
           (\<lambda>draw.
              draw_text L (centered_x, centered_y) text (FillHex color) font draw))"

text \<open>The legacy format, a dictionary without the key \<^verbatim>\<open>type\<close> (lines 403-420).\<close>

definition legacy_effect ::
  "lib \<Rightarrow> draw_call list \<Rightarrow> string \<Rightarrow> font \<Rightarrow> string \<Rightarrow> effects \<Rightarrow> int \<Rightarrow> int
     \<Rightarrow> exn + draw_call list" where
  "legacy_effect L draw text font color e centered_x centered_y =
     bind (case e_shadow e of
             None \<Rightarrow> Inr draw
           | Some shadow_settings \<Rightarrow>
               (let shadow_offset = get_or (l_offset shadow_settings) [5, 5];
                    shadow_color = get_or (l_color shadow_settings) ''#000000''
                in bind (py_index shadow_offset 0) (\<lambda>o0.
                   bind (py_index shadow_offset 1) (\<lambda>o1.
                   draw_text L (centered_x + o0, centered_y + o1) text (FillHex shadow_color)
                     font draw))))
       (\<lambda>draw. draw_text L (centered_x, centered_y) text (FillHex color) font draw)"

text \<open>
  \<^verbatim>\<open>_apply_text_effects\<close> (lines 200-420). The text is measured and the
  position is read (lines 225-241); the draw origin \<open>(centered_x, centered_y)\<close> is
  computed (lines 247-255); \<open>render_effect\<close> is the rest of the body (lines 259-420),
  which draws relative to that origin.
\<close>

definition read_position :: "position \<Rightarrow> int \<times> int" where
  "read_position p =
     (case p of
        PosTuple [x, y] \<Rightarrow> (x, y)
      | PosDict m \<Rightarrow> (case (m ''x'', m ''y'') of (Some x, Some y) \<Rightarrow> (x, y) | _ \<Rightarrow> (0, 0))
      | _ \<Rightarrow> (0, 0))"

definition render_effect ::
  "lib \<Rightarrow> draw_call list \<Rightarrow> string \<Rightarrow> font \<Rightarrow> string \<Rightarrow> effects option \<Rightarrow> int \<Rightarrow> int
     \<Rightarrow> exn + draw_call list" where
  "render_effect L draw text font color eff centered_x centered_y =
     (case eff of
        None \<Rightarrow> draw_text L (centered_x, centered_y) text (FillHex color) font draw
      | Some e \<Rightarrow>
          if no_keys e then
            draw_text L (centered_x, centered_y) text (FillHex color) font draw
          else if e_type e \<noteq> None then
            (let effect_type = e_type e;
                 st = get_or (e_settings e) empty_settings
             in if effect_type = Some ''shadow'' then
                  shadow_effect L draw text font color st centered_x centered_y
                else if effect_type = Some ''outline'' then
                  outline_effect L draw text font color st centered_x centered_y
                else if effect_type = Some ''glow'' then
                  glow_effect L draw text font color st centered_x centered_y
                else if effect_type = Some ''3d_depth'' then
                  depth_effect L draw text font color st centered_x centered_y
                else draw_text L (centered_x, centered_y) text (FillHex color) font draw)
          else legacy_effect L draw text font color e centered_x centered_y)"

definition apply_text_effects ::
  "lib \<Rightarrow> draw_call list \<Rightarrow> string \<Rightarrow> position \<Rightarrow> font \<Rightarrow> string \<Rightarrow> effects option
     \<Rightarrow> exn + draw_call list" where
  "apply_text_effects L draw text pos font color eff =
     bind (textbbox L font text) (\<lambda>(left, top, right, bottom).
       let text_width = right - left;
           text_height = bottom - top;
           (x, y) = read_position pos;
           centered_x = x - text_width div 2;
           vertical_adjustment_factor = 375 / 1000;
           vertical_adjustment = py_int (of_int text_height * vertical_adjustment_factor);
           centered_y = y - text_height div 2 - vertical_adjustment
       in render_effect L draw text font color eff centered_x centered_y)"

section \<open>FontResolver: \<^verbatim>\<open>_get_font\<close>\<close>

text \<open>
  The font library is a parameter: \<open>truetype_err name size\<close> is the exception that
  \<^verbatim>\<open>ImageFont.truetype(name, size)\<close> raises, if it raises, and
  \<open>path_exists p\<close> is \<^verbatim>\<open>Path(p).exists()\<close>. The built-in font of
  \<^verbatim>\<open>ImageFont.load_default()\<close> is always there. The case conversions
  \<^verbatim>\<open>lower()\<close> and \<^verbatim>\<open>upper()\<close> are modelled on the ASCII letters and
  leave every other character as it is.
\<close>

record fontlib =
  truetype_err :: "string \<Rightarrow> int \<Rightarrow> exn option"
  path_exists :: "string \<Rightarrow> bool"

definition truetype :: "fontlib \<Rightarrow> string \<Rightarrow> int \<Rightarrow> exn + font" where
  "truetype F name font_size =
     (case truetype_err F name font_size of
        Some e \<Rightarrow> Inl e
      | None \<Rightarrow> Inr (FreeTypeFont name font_size))"

definition lower_char :: "char \<Rightarrow> char" where
  "lower_char c =
     (case map_of (zip ''ABCDEFGHIJKLMNOPQRSTUVWXYZ'' ''abcdefghijklmnopqrstuvwxyz'') c of
        Some d \<Rightarrow> d
      | None \<Rightarrow> c)"

definition upper_char :: "char \<Rightarrow> char" where
  "upper_char c =
     (case map_of (zip ''abcdefghijklmnopqrstuvwxyz'' ''ABCDEFGHIJKLMNOPQRSTUVWXYZ'') c of
        Some d \<Rightarrow> d
      | None \<Rightarrow> c)"

definition lower :: "string \<Rightarrow> string" where
  "lower s = map lower_char s"

definition upper :: "string \<Rightarrow> string" where
  "upper s = map upper_char s"

definition startswith :: "string \<Rightarrow> string \<Rightarrow> bool" where
  "startswith s p = (take (length p) s = p)"

definition endswith :: "string \<Rightarrow> string \<Rightarrow> bool" where
  "endswith s p = (length p \<le> length s \<and> drop (length s - length p) s = p)"

text \<open>\<^verbatim>\<open>self.dramatic_fonts\<close> (lines 28-35) and \<^verbatim>\<open>self.fonts_dir\<close>.\<close>

definition dramatic_fonts :: "(string \<times> string) list" where
  "dramatic_fonts =
     [(''anton'', ''Anton-Regular.ttf''),
      (''sixcaps'', ''SixCaps.ttf''),
      (''impact'', ''Impact''),
      (''arial_bold'', ''Arial Bold''),
      (''helvetica_bold'', ''Helvetica Bold''),
      (''boldonse'', ''Boldonse.ttf'')]"

definition fonts_dir_file :: "string \<Rightarrow> string" where
  "fonts_dir_file font_file = ''assets/fonts/'' @ font_file"

text \<open>The body of the \<^verbatim>\<open>try\<close> block of \<^verbatim>\<open>_get_font\<close> (lines 177-191).\<close>

definition get_font_try :: "fontlib \<Rightarrow> string \<Rightarrow> int \<Rightarrow> exn + font" where
  "get_font_try F font_name font_size =
     (case map_of dramatic_fonts (lower font_name) of
        Some font_file \<Rightarrow>
          if (endswith font_file ''.ttf'' \<or> endswith font_file ''.otf'')
             \<and> path_exists F (fonts_dir_file font_file)
          then truetype F (fonts_dir_file font_file) font_size
          else truetype F font_file font_size
      | None \<Rightarrow> truetype F font_name font_size)"

text \<open>
  \<^verbatim>\<open>_get_font\<close> (lines 174-198): both handlers catch every exception, so the
  function returns a font.
\<close>

definition get_font :: "fontlib \<Rightarrow> string \<Rightarrow> int \<Rightarrow> font" where
  "get_font F font_name font_size =
     (case get_font_try F font_name font_size of
        Inr f \<Rightarrow> f
      | Inl e \<Rightarrow>
          (case truetype F ''Arial'' font_size of
             Inr f \<Rightarrow> f
           | Inl e' \<Rightarrow> DefaultFont))"

section \<open>LayerCompositor: \<^verbatim>\<open>add_text\<close>, \<^verbatim>\<open>add_dramatic_text\<close>,
  \<^verbatim>\<open>add_multiple_text_layers\<close>\<close>

text \<open>
  An opened image is known by its size. The files that \<^verbatim>\<open>save\<close> wrote are
  the state of the file system: each entry is a path, the image that was drawn on and
  the draw calls performed on it. The storage service
  (\<^verbatim>\<open>src/services/s3_service.py\<close>) is a collaborator whose
  \<^verbatim>\<open>upload_image\<close> returns a dictionary or raises.

  The collaborators of the compositor are parameters: \<open>isfile\<close> is
  \<^verbatim>\<open>os.path.isfile\<close>; \<open>download url\<close> is the body of the \<^verbatim>\<open>try\<close>
  block of lines 100-116, which returns the path of a temporary file or raises;
  \<open>base_dir_join p\<close> is \<^verbatim>\<open>str(self.base_dir / p)\<close> and \<open>uploads_join p\<close>
  is \<^verbatim>\<open>str(Path("uploads") / p)\<close>; \<open>image_open p\<close> is
  \<^verbatim>\<open>Image.open(p).convert('RGBA')\<close>; \<open>mkdir_err\<close> and \<open>save_err\<close> are the
  exceptions, if any, of \<^verbatim>\<open>mkdir(exist_ok=True)\<close> and of
  \<^verbatim>\<open>save\<close>; \<open>text_path_of p\<close> is the path built in lines 587-589 from
  the background path and the clock, and \<open>multilayer_path\<close> the path of lines 921-922.
\<close>

record image =
  img_width :: int
  img_height :: int

type_synonym files = "(string \<times> image \<times> draw_call list) list"

type_synonym upload_info = "(string \<times> string) list"

record io =
  isfile :: "string \<Rightarrow> bool"
  download :: "string \<Rightarrow> exn + string"
  base_dir_join :: "string \<Rightarrow> string"
  uploads_join :: "string \<Rightarrow> string"
  image_open :: "string \<Rightarrow> exn + image"
  mkdir_err :: "string \<Rightarrow> exn option"
  text_path_of :: "string \<Rightarrow> string"
  multilayer_path :: string
  save_err :: "string \<Rightarrow> exn option"
  upload_image :: "string \<Rightarrow> exn + upload_info"

definition raise_if :: "exn option \<Rightarrow> exn + unit" where
  "raise_if r = (case r of Some e \<Rightarrow> Inl e | None \<Rightarrow> Inr ())"

text \<open>\<^verbatim>\<open>', '.join(xs)\<close>.\<close>

fun join_comma :: "string list \<Rightarrow> string" where
  "join_comma [] = []"
| "join_comma [x] = x"
| "join_comma (x # y # ys) = x @ '', '' @ join_comma (y # ys)"

text \<open>\<^verbatim>\<open>_resolve_image_path\<close> (lines 83-158).\<close>

definition resolve_image_path :: "io \<Rightarrow> string \<Rightarrow> exn + string" where
  "resolve_image_path IO image_path =
     (if startswith image_path ''http://'' \<or> startswith image_path ''https://'' then
        (case download IO image_path of
           Inr temp_path \<Rightarrow> Inr temp_path
         | Inl e \<Rightarrow> Inl (ValueError ''Failed to download image from URL: '' e))
      else if startswith image_path ''/uploads/'' then
        (let possible_paths =
               [image_path, base_dir_join IO (drop 1 image_path),
                uploads_join IO (drop 9 image_path)]
         in case find (isfile IO) possible_paths of
              Some path \<Rightarrow> Inr path
            | None \<Rightarrow> Inl (FileNotFoundError
                (''Could not locate image file at any of these locations: ''
                   @ join_comma possible_paths)))
      else if isfile IO image_path then Inr image_path
      else (let full_path = base_dir_join IO image_path
            in if isfile IO full_path then Inr full_path
               else Inl (FileNotFoundError (''File not found: '' @ image_path))))"

text \<open>The dictionary that \<^verbatim>\<open>add_text\<close> returns beside the path (lines 602-617).\<close>

record text_info =
  info_path :: string
  info_cloud_url :: upload_info
  info_text_size :: "int \<times> int"
  info_position :: "int \<times> int"
  info_image_size :: "int \<times> int"

text \<open>
  The \<^verbatim>\<open>try\<close> block of \<^verbatim>\<open>add_text\<close> (lines 541-617). The canvas is a
  copy of the background, so its draw calls start empty. Nothing before
  \<^verbatim>\<open>canvas.save\<close> writes a file.
\<close>

definition add_text_try ::
  "lib \<Rightarrow> fontlib \<Rightarrow> io \<Rightarrow> files \<Rightarrow> string \<Rightarrow> string \<Rightarrow> (string \<rightharpoonup> int) \<Rightarrow> int \<Rightarrow> string
     \<Rightarrow> string \<Rightarrow> effects option \<Rightarrow> (exn + string \<times> text_info) \<times> files" where
  "add_text_try L F IO fs background_path text position font_size color font_name eff =
     (case
        bind (resolve_image_path IO background_path) (\<lambda>resolved_path.
        bind (image_open IO resolved_path) (\<lambda>background.
        let font = get_font F font_name font_size
        in bind (textbbox L font text) (\<lambda>(left, top, right, bottom).
           let text_width = right - left;
               text_height = bottom - top;
               pos_x = get_or (position ''x'') 10;
               pos_y = get_or (position ''y'') 10
           in bind (apply_text_effects L [] text (PosTuple [pos_x, pos_y]) font color eff)
                (\<lambda>draw.
              bind (raise_if (mkdir_err IO ''uploads/processed'')) (\<lambda>_.
              let text_path = text_path_of IO background_path
              in bind (raise_if (save_err IO text_path)) (\<lambda>_.
                 Inr (background, draw, text_path, (text_width, text_height),
                      (pos_x, pos_y))))))))
      of
        Inl e \<Rightarrow> (Inl e, fs)
      | Inr (background, draw, text_path, text_size, pos) \<Rightarrow>
          (let fs' = fs @ [(text_path, background, draw)]
           in case upload_image IO text_path of
                Inl e \<Rightarrow> (Inl e, fs')
              | Inr cloud_url \<Rightarrow>
                  (Inr (text_path,
                        \<lparr>info_path = text_path, info_cloud_url = cloud_url,
                         info_text_size = text_size, info_position = pos,
                         info_image_size = (img_width background, img_height background)\<rparr>),
                   fs')))"

text \<open>\<^verbatim>\<open>add_text\<close> (lines 512-620): the handler wraps every exception.\<close>

definition add_text ::
  "lib \<Rightarrow> fontlib \<Rightarrow> io \<Rightarrow> files \<Rightarrow> string \<Rightarrow> string \<Rightarrow> (string \<rightharpoonup> int) \<Rightarrow> int \<Rightarrow> string
     \<Rightarrow> string \<Rightarrow> effects option \<Rightarrow> (exn + string \<times> text_info) \<times> files" where
  "add_text L F IO fs background_path text position font_size color font_name eff =
     (case add_text_try L F IO fs background_path text position font_size color font_name eff of
        (Inl e, fs') \<Rightarrow> (Inl (ValueError ''Failed to add text: '' e), fs')
      | (Inr r, fs') \<Rightarrow> (Inr r, fs'))"

text \<open>The default effect of \<^verbatim>\<open>add_dramatic_text\<close> (lines 664-672).\<close>

definition shadow_default :: effects where
  "shadow_default =
     \<lparr>e_type = Some ''shadow'',
      e_settings = Some (empty_settings\<lparr>s_offset := Some [5, 5], s_color := Some ''#000000'',
                           s_opacity := Some (1 / 2)\<rparr>),
      e_shadow = None\<rparr>"

text \<open>The truth value of \<^verbatim>\<open>effects\<close>: neither \<^verbatim>\<open>None\<close> nor empty.\<close>

definition truthy :: "effects option \<Rightarrow> bool" where
  "truthy eff = (case eff of None \<Rightarrow> False | Some e \<Rightarrow> \<not> no_keys e)"

text \<open>
  \<^verbatim>\<open>add_dramatic_text\<close> (lines 622-690). \<^verbatim>\<open>processed_text[-1]\<close> is
  read only when \<^verbatim>\<open>with_period\<close> holds.
\<close>

definition add_dramatic_text ::
  "lib \<Rightarrow> fontlib \<Rightarrow> io \<Rightarrow> files \<Rightarrow> string \<Rightarrow> string \<Rightarrow> (string \<rightharpoonup> int) \<Rightarrow> int \<Rightarrow> string
     \<Rightarrow> string \<Rightarrow> bool \<Rightarrow> bool \<Rightarrow> effects option \<Rightarrow> (exn + string \<times> text_info) \<times> files" where
  "add_dramatic_text L F IO fs background_path text position font_size color font_name
       with_period to_uppercase eff =
     (let processed_text = (if to_uppercase then upper text else text)
      in case
           (if with_period then
              bind (py_index processed_text (- 1)) (\<lambda>c.
                Inr (if c \<notin> set ''.!?'' then processed_text @ ''.'' else processed_text))
            else Inr processed_text)
         of
           Inl e \<Rightarrow> (Inl (ValueError ''Failed to add dramatic text: '' e), fs)
         | Inr processed_text \<Rightarrow>
             (let final_effects = (if truthy eff then eff else Some shadow_default)
              in case add_text L F IO fs background_path processed_text position font_size
                        color font_name final_effects of
                   (Inl e, fs') \<Rightarrow> (Inl (ValueError ''Failed to add dramatic text: '' e), fs')
                 | (Inr r, fs') \<Rightarrow> (Inr r, fs')))"

text \<open>\<^verbatim>\<open>TextLayer\<close> (lines 935-946) and the style keys the compositor reads.\<close>

record style =
  st_font_size :: "int option"
  st_color :: "string option"
  st_font_name :: "string option"
  st_effects :: "effects option"

record text_layer =
  t_text :: string
  t_position :: "string \<rightharpoonup> int"
  t_style :: style

text \<open>The body of the loop over the layers (lines 897-918).\<close>

definition render_layer :: "lib \<Rightarrow> fontlib \<Rightarrow> text_layer \<Rightarrow> draw_call list \<Rightarrow> exn + draw_call list" where
  "render_layer L F layer draw =
     (let text = t_text layer;
          pos_x = get_or (t_position layer ''x'') 10;
          pos_y = get_or (t_position layer ''y'') 10;
          pos = PosTuple [pos_x, pos_y];
          font_size = get_or (st_font_size (t_style layer)) 120;
          color = get_or (st_color (t_style layer)) ''#FFFFFF'';
          font_name = get_or (st_font_name (t_style layer)) ''anton'';
          eff = st_effects (t_style layer);
          font = get_font F font_name font_size
      in apply_text_effects L draw text pos font color eff)"

text \<open>
  \<^verbatim>\<open>add_multiple_text_layers\<close> (lines 874-933): the layers are drawn on the
  background itself, in order.
\<close>

definition add_multiple_text_layers ::
  "lib \<Rightarrow> fontlib \<Rightarrow> io \<Rightarrow> files \<Rightarrow> string \<Rightarrow> text_layer list \<Rightarrow> (exn + string) \<times> files" where
  "add_multiple_text_layers L F IO fs background_path text_layers =
     (case
        bind (resolve_image_path IO background_path) (\<lambda>resolved_path.
        bind (image_open IO resolved_path) (\<lambda>background.
        bind (for_each text_layers (render_layer L F) []) (\<lambda>draw.
        bind (raise_if (save_err IO (multilayer_path IO))) (\<lambda>_.
        Inr (background, draw)))))
      of
        Inl e \<Rightarrow> (Inl (ValueError ''Failed to add multiple text layers: '' e), fs)
      | Inr (background, draw) \<Rightarrow>
          (let fs' = fs @ [(multilayer_path IO, background, draw)]
           in case bind (upload_image IO (multilayer_path IO)) (\<lambda>result_info.
                     case map_of result_info ''url'' of
                       None \<Rightarrow> Inl (KeyError ''url'')
                     | Some url \<Rightarrow> Inr url) of
                Inl e \<Rightarrow> (Inl (ValueError ''Failed to add multiple text layers: '' e), fs')
              | Inr url \<Rightarrow> (Inr url, fs')))"

section \<open>Notions used in the statements\<close>

text \<open>
  The offsets of the outline effect, in the order in which the two nested loops of
  lines 315-319 reach them.
\<close>

definition outline_offsets :: "int \<Rightarrow> (int \<times> int) list" where
  "outline_offsets w =
     filter (\<lambda>(dx, dy). \<not> (dx = 0 \<and> dy = 0)) (List.product [- w..w] [- w..w])"

text \<open>
  PositionResolver of the specification (section 4.4), written from its formula:
  \<^verbatim>\<open>centeredX = anchor.x - width/2\<close> (integer division),
  \<^verbatim>\<open>verticalAdjustment = floor(height * 0.375)\<close>,
  \<^verbatim>\<open>centeredY = anchor.y - height/2 - verticalAdjustment\<close>.
\<close>

definition resolve_origin :: "int \<times> int \<Rightarrow> int \<times> int \<Rightarrow> int \<times> int" where
  "resolve_origin anchor metrics =
     (case (anchor, metrics) of ((x, y), (width, height)) \<Rightarrow>
        (x - width div 2, y - height div 2 - \<lfloor>(of_int height :: rat) * (375 / 1000)\<rfloor>))"

text \<open>
  An example library for closed instances of the theorems: every text is twenty
  pixels high and twenty pixels wide per character, the rasterizer accepts every call,
  and the cosines and sines are the values of the math library at the multiples of 30
  degrees and at 45 degrees.
\<close>

definition example_trig :: "(rat \<times> rat \<times> rat) list" where
  "example_trig =
     [(0, 1, 0),
      (30, 8660254037844387 / 10000000000000000, 49999999999999994 / 100000000000000000),
      (45, 7071067811865476 / 10000000000000000, 7071067811865475 / 10000000000000000),
      (60, 5000000000000001 / 10000000000000000, 8660254037844386 / 10000000000000000),
      (90, 6123233995736766 / 100000000000000000000000000000000, 1),
      (120, - 4999999999999998 / 10000000000000000, 8660254037844387 / 10000000000000000),
      (150, - 8660254037844387 / 10000000000000000, 49999999999999994 / 100000000000000000),
      (180, - 1, 12246467991473532 / 100000000000000000000000000000000),
      (210, - 8660254037844386 / 10000000000000000, - 5000000000000001 / 10000000000000000),
      (240, - 5000000000000004 / 10000000000000000, - 8660254037844384 / 10000000000000000),
      (270, - 18369701987210297 / 100000000000000000000000000000000, - 1),
      (300, 5000000000000001 / 10000000000000000, - 8660254037844386 / 10000000000000000),
      (330, 8660254037844384 / 10000000000000000, - 5000000000000004 / 10000000000000000)]"

definition example_lib :: lib where
  "example_lib =
     \<lparr>textbbox = (\<lambda>font text. Inr (0, 0, 20 * int (length text), 20)),
      draw_err = (\<lambda>d. None),
      cos_deg = (\<lambda>a. case map_of example_trig a of Some (c, s) \<Rightarrow> c | None \<Rightarrow> 0),
      sin_deg = (\<lambda>a. case map_of example_trig a of Some (c, s) \<Rightarrow> s | None \<Rightarrow> 0)\<rparr>"

text \<open>
  The names that \<^verbatim>\<open>_get_font\<close> tries before the fallback, after the lookup order
  of the specification (section 4.2, steps 1 to 3): the file of the alias in the fonts
  directory when the alias names a font file that exists there, else the alias as a
  system font; the name itself when it has no alias.
\<close>

definition font_candidates :: "fontlib \<Rightarrow> string \<Rightarrow> string list" where
  "font_candidates F font_name =
     (case map_of dramatic_fonts (lower font_name) of
        Some font_file \<Rightarrow>
          if (endswith font_file ''.ttf'' \<or> endswith font_file ''.otf'')
             \<and> path_exists F (fonts_dir_file font_file)
          then [fonts_dir_file font_file]
          else [font_file]
      | None \<Rightarrow> [font_name])"

text \<open>
  Example collaborators for closed instances: a font library that has the font files of
  the fonts directory and no system font but Arial, and a file system with one image,
  no network, and a storage service whose upload fails.
\<close>

definition example_fonts :: fontlib where
  "example_fonts =
     \<lparr>truetype_err = (\<lambda>name font_size.
        if name = ''Arial'' \<or> startswith name ''assets/fonts/'' then None
        else Some (External ''cannot open resource'')),
      path_exists = (\<lambda>p. p = ''assets/fonts/Anton-Regular.ttf'')\<rparr>"

definition example_io :: io where
  "example_io =
     \<lparr>isfile = (\<lambda>p. p = ''uploads/original/a.png''),
      download = (\<lambda>url. Inl (External ''no network'')),
      base_dir_join = (\<lambda>p. ''/app/'' @ p),
      uploads_join = (\<lambda>p. ''uploads/'' @ p),
      image_open = (\<lambda>p. Inr \<lparr>img_width = 640, img_height = 480\<rparr>),
      mkdir_err = (\<lambda>p. None),
      text_path_of = (\<lambda>p. ''uploads/processed/a_text_1700000000.png''),
      multilayer_path = ''uploads/public/multilayer_1700000000.png'',
      save_err = (\<lambda>p. None),
      upload_image = (\<lambda>p. Inl (External ''upload failed''))\<rparr>"

section \<open>Basic facts\<close>

lemma bind_Inr [simp]: "bind (Inr v) f = f v"
  by (simp add: bind_def)

lemma bind_Inl [simp]: "bind (Inl e) f = Inl e"
  by (simp add: bind_def)

lemma py_int_nonneg: "0 \<le> q \<Longrightarrow> py_int q = \<lfloor>q\<rfloor>"
  by (simp add: py_int_def)

section \<open>ColorModel\<close>

text \<open>The hexadecimal digits and their values, in both cases.\<close>

lemma hex_val_table:
  "map hex_val ''0123456789abcdefABCDEF'' =
     map Some [0, 1, 2, 3, 4, 5, 6, 7, 8, 9, 10, 11, 12, 13, 14, 15, 10, 11, 12, 13, 14, 15]"
  by (simp add: hex_val_def)

lemma hex_val_only_digits:
  assumes "hex_val c = Some v"
  shows "c \<in> set ''0123456789abcdefABCDEF''"
proof -
  have inj: "inj (of_char :: char \<Rightarrow> nat)"
    by (rule injI) simp
  from assms have "(of_char c :: nat) \<in> {48..57} \<union> {97..102} \<union> {65..70}"
    by (auto simp: hex_val_def Let_def split: if_splits)
  then have "(of_char c :: nat) \<in> of_char ` set ''0123456789abcdefABCDEF''"
    by (simp only: set_simps) (auto simp: atLeastAtMost_iff; presburger)
  then show ?thesis
    by (simp only: inj_image_mem_iff[OF inj])
qed

lemma hex_val_char:
  assumes "hex_val c = Some v"
  shows "\<not> is_space c" and "c \<noteq> CHR ''+''" and "c \<noteq> CHR ''-''" and "c \<noteq> CHR ''_''"
    and "c \<noteq> CHR ''x''" and "c \<noteq> CHR ''X''" and "c \<noteq> CHR ''#''"
    and "0 \<le> v" and "v \<le> 15"
  using assms by (auto simp: hex_val_def is_space_def Let_def split: if_splits)

lemma int16_single: "hex_val c = Some v \<Longrightarrow> int16 [c] = Inr v"
  using hex_val_char[of c v]
  by (simp add: int16_def strip_space_def drop_prefix16_def)

lemma int16_pair:
  "hex_val c = Some v \<Longrightarrow> hex_val d = Some w \<Longrightarrow> int16 [c, d] = Inr (v * 16 + w)"
  using hex_val_char[of c v] hex_val_char[of d w]
  by (simp add: int16_def strip_space_def drop_prefix16_def)

lemma dropWhile_hashes:
  "hex_val c = Some v \<Longrightarrow>
     dropWhile (\<lambda>c. c = CHR ''#'') (replicate n CHR ''#'' @ c # cs) = c # cs"
  using hex_val_char(7)[of c v] by (induction n) auto

text \<open>
  A string of hexadecimal digits that does not start with \<^verbatim>\<open>#\<close> is not parsed,
  and a digit that is not hexadecimal raises after the length check has passed.
\<close>

lemma hex_to_rgba_non_hex_raises:
  "hex_to_rgba ''#GGG'' = Inl (InvalidLiteral ''G'')"
  by (simp add: hex_to_rgba_def slice_def int16_def strip_space_def is_space_def
        drop_prefix16_def hex_val_def)

text \<open>
  Claim C2, as the code has it. A colour string that starts with \<^verbatim>\<open>#\<close> (one or
  more) followed by 3, 4, 6 or 8 hexadecimal digits of either case parses: a short form
  doubles each digit (the value \<open>v\<close> becomes \<open>16 v + v\<close>), a long form reads pairs of
  digits, and a missing alpha is 255; so \<^verbatim>\<open>#F00\<close> and \<^verbatim>\<open>#FF0000\<close> both
  give (255, 0, 0, 255). A string that does not start with \<^verbatim>\<open>#\<close>, and a string
  whose length after the \<^verbatim>\<open>#\<close> is not 3, 4, 6 or 8, gives opaque white without
  raising, as \<^verbatim>\<open>not-a-color\<close> does.
\<close>

theorem hex_to_rgba_forms:
  "(hex_val c1 = Some v1 \<and> hex_val c2 = Some v2 \<and> hex_val c3 = Some v3 \<longrightarrow>
      hex_to_rgba (replicate (Suc n) CHR ''#'' @ [c1, c2, c3])
        = Inr (v1 * 16 + v1, v2 * 16 + v2, v3 * 16 + v3, 255))
   \<and> (hex_val c1 = Some v1 \<and> hex_val c2 = Some v2 \<and> hex_val c3 = Some v3
        \<and> hex_val c4 = Some v4 \<longrightarrow>
      hex_to_rgba (replicate (Suc n) CHR ''#'' @ [c1, c2, c3, c4])
        = Inr (v1 * 16 + v1, v2 * 16 + v2, v3 * 16 + v3, v4 * 16 + v4))
   \<and> (hex_val c1 = Some v1 \<and> hex_val c2 = Some v2 \<and> hex_val c3 = Some v3
        \<and> hex_val c4 = Some v4 \<and> hex_val c5 = Some v5 \<and> hex_val c6 = Some v6 \<longrightarrow>
      hex_to_rgba (replicate (Suc n) CHR ''#'' @ [c1, c2, c3, c4, c5, c6])
        = Inr (v1 * 16 + v2, v3 * 16 + v4, v5 * 16 + v6, 255))
   \<and> (hex_val c1 = Some v1 \<and> hex_val c2 = Some v2 \<and> hex_val c3 = Some v3
        \<and> hex_val c4 = Some v4 \<and> hex_val c5 = Some v5 \<and> hex_val c6 = Some v6
        \<and> hex_val c7 = Some v7 \<and> hex_val c8 = Some v8 \<longrightarrow>
      hex_to_rgba (replicate (Suc n) CHR ''#'' @ [c1, c2, c3, c4, c5, c6, c7, c8])
        = Inr (v1 * 16 + v2, v3 * 16 + v4, v5 * 16 + v6, v7 * 16 + v8))
   \<and> (take 1 s \<noteq> ''#'' \<longrightarrow> hex_to_rgba s = Inr (255, 255, 255, 255))
   \<and> (length (dropWhile (\<lambda>c. c = CHR ''#'') s) \<notin> {3, 4, 6, 8} \<longrightarrow>
        hex_to_rgba s = Inr (255, 255, 255, 255))
   \<and> hex_to_rgba ''#F00'' = Inr (255, 0, 0, 255)
   \<and> hex_to_rgba ''#FF0000'' = Inr (255, 0, 0, 255)
   \<and> hex_to_rgba ''not-a-color'' = Inr (255, 255, 255, 255)"
proof -
  have strip: "dropWhile (\<lambda>c. c = CHR ''#'') (replicate (Suc n) CHR ''#'' @ c # cs) = c # cs"
    if "hex_val c = Some v" for c v cs
    using dropWhile_hashes[OF that, of "Suc n" cs] .
  have f3: "hex_to_rgba (replicate (Suc n) CHR ''#'' @ [c1, c2, c3])
        = Inr (v1 * 16 + v1, v2 * 16 + v2, v3 * 16 + v3, 255)"
    if "hex_val c1 = Some v1" "hex_val c2 = Some v2" "hex_val c3 = Some v3"
    using that strip[OF that(1), of "[c2, c3]"]
    by (simp add: hex_to_rgba_def slice_def int16_single)
  have f4: "hex_to_rgba (replicate (Suc n) CHR ''#'' @ [c1, c2, c3, c4])
        = Inr (v1 * 16 + v1, v2 * 16 + v2, v3 * 16 + v3, v4 * 16 + v4)"
    if "hex_val c1 = Some v1" "hex_val c2 = Some v2" "hex_val c3 = Some v3"
       "hex_val c4 = Some v4"
    using that strip[OF that(1), of "[c2, c3, c4]"]
    by (simp add: hex_to_rgba_def slice_def int16_single)
  have f6: "hex_to_rgba (replicate (Suc n) CHR ''#'' @ [c1, c2, c3, c4, c5, c6])
        = Inr (v1 * 16 + v2, v3 * 16 + v4, v5 * 16 + v6, 255)"
    if "hex_val c1 = Some v1" "hex_val c2 = Some v2" "hex_val c3 = Some v3"
       "hex_val c4 = Some v4" "hex_val c5 = Some v5" "hex_val c6 = Some v6"
    using that strip[OF that(1), of "[c2, c3, c4, c5, c6]"]
    by (simp add: hex_to_rgba_def slice_def int16_pair)
  have f8: "hex_to_rgba (replicate (Suc n) CHR ''#'' @ [c1, c2, c3, c4, c5, c6, c7, c8])
        = Inr (v1 * 16 + v2, v3 * 16 + v4, v5 * 16 + v6, v7 * 16 + v8)"
    if "hex_val c1 = Some v1" "hex_val c2 = Some v2" "hex_val c3 = Some v3"
       "hex_val c4 = Some v4" "hex_val c5 = Some v5" "hex_val c6 = Some v6"
       "hex_val c7 = Some v7" "hex_val c8 = Some v8"
    using that strip[OF that(1), of "[c2, c3, c4, c5, c6, c7, c8]"]
    by (simp add: hex_to_rgba_def slice_def int16_pair)
  have nohash: "hex_to_rgba s = Inr (255, 255, 255, 255)" if "take 1 s \<noteq> ''#''"
    using that by (simp add: hex_to_rgba_def)
  have badlen: "hex_to_rgba s = Inr (255, 255, 255, 255)"
    if "length (dropWhile (\<lambda>c. c = CHR ''#'') s) \<notin> {3, 4, 6, 8}"
    using that by (simp add: hex_to_rgba_def Let_def)
  have ex: "hex_to_rgba ''#F00'' = Inr (255, 0, 0, 255)"
    "hex_to_rgba ''#FF0000'' = Inr (255, 0, 0, 255)"
    "hex_to_rgba ''not-a-color'' = Inr (255, 255, 255, 255)"
    by (simp_all add: hex_to_rgba_def slice_def int16_def strip_space_def is_space_def
          drop_prefix16_def hex_val_def)
  show ?thesis
    using f3 f4 f6 f8 nohash badlen ex by blast
qed

theorem hex_to_rgba_forms_witness:
  "hex_to_rgba ''#f80'' = Inr (255, 136, 0, 255)
   \<and> hex_to_rgba ''##F80c'' = Inr (255, 136, 0, 204)
   \<and> hex_to_rgba ''#fF8000'' = Inr (255, 128, 0, 255)
   \<and> hex_to_rgba ''#Ff800040'' = Inr (255, 128, 0, 64)
   \<and> hex_to_rgba ''ff8000'' = Inr (255, 255, 255, 255)
   \<and> hex_to_rgba ''#ff800'' = Inr (255, 255, 255, 255)"
  using hex_to_rgba_forms[of "CHR ''f''" 15 "CHR ''8''" 8 "CHR ''0''" 0 0 "CHR ''c''" 12
          "CHR ''0''" 0 "CHR ''0''" 0 "CHR ''4''" 4 "CHR ''0''" 0 "''ff8000''"]
    hex_to_rgba_forms[of "CHR ''F''" 15 "CHR ''8''" 8 "CHR ''0''" 0 1 "CHR ''c''" 12
          "CHR ''0''" 0 "CHR ''0''" 0 "CHR ''4''" 4 "CHR ''0''" 0 "''#ff800''"]
    hex_to_rgba_forms[of "CHR ''f''" 15 "CHR ''F''" 15 "CHR ''8''" 8 0 "CHR ''0''" 0
          "CHR ''0''" 0 "CHR ''0''" 0 "CHR ''4''" 4 "CHR ''0''" 0 "''#ff800''"]
    hex_to_rgba_forms[of "CHR ''F''" 15 "CHR ''f''" 15 "CHR ''8''" 8 0 "CHR ''0''" 0
          "CHR ''0''" 0 "CHR ''0''" 0 "CHR ''4''" 4 "CHR ''0''" 0 "''#ff800''"]
  by (simp add: hex_val_def)

text \<open>
  Claim C2 as stated fails: without the leading \<^verbatim>\<open>#\<close> six hexadecimal digits
  are not parsed.
\<close>

theorem hex_to_rgba_no_hash_counterexample:
  "hex_to_rgba ''FF0000'' = Inr (255, 255, 255, 255)
   \<and> hex_to_rgba ''FF0000'' \<noteq> Inr (255, 0, 0, 255)"
  by (simp add: hex_to_rgba_def)

section \<open>Loops that draw\<close>

lemmas hex_eval = hex_to_rgba_def slice_def int16_def strip_space_def is_space_def
  drop_prefix16_def hex_val_def

lemma floor_rat_numeral [simp]:
  "\<lfloor>numeral a / numeral b :: rat\<rfloor> = numeral a div numeral b"
  by (metis floor_divide_of_int_eq of_int_numeral)

lemma floor_rat_minus_numeral [simp]:
  "\<lfloor>- (numeral a / numeral b) :: rat\<rfloor> = - numeral a div numeral b"
  by (metis divide_minus_left floor_divide_of_int_eq of_int_neg_numeral of_int_numeral)

lemma example_lib_simps [simp]:
  "textbbox example_lib font text = Inr (0, 0, 20 * int (length text), 20)"
  "draw_err example_lib d = None"
  by (simp_all add: example_lib_def)


lemma draw_text_ok:
  "draw_err L (DrawText xy text fl font) = None \<Longrightarrow>
     draw_text L xy text fl font draw = Inr (draw @ [DrawText xy text fl font])"
  by (simp add: draw_text_def)

lemma draw_text_extends:
  "draw_text L xy text fl font draw = Inr draw' \<Longrightarrow> draw' = draw @ [DrawText xy text fl font]"
  by (simp add: draw_text_def split: option.splits)

lemma for_each_append:
  assumes "\<And>x s. x \<in> set xs \<Longrightarrow> body x s = Inr (s @ g x)"
  shows "for_each xs body s = Inr (s @ concat (map g xs))"
  using assms by (induction xs arbitrary: s) simp_all

lemma for_each_extends:
  assumes "\<And>x s s'. x \<in> set xs \<Longrightarrow> body x s = Inr s' \<Longrightarrow> \<exists>ds. s' = s @ ds"
    and "for_each xs body s = Inr s'"
  shows "\<exists>ds. s' = s @ ds"
  using assms
proof (induction xs arbitrary: s)
  case Nil
  then show ?case by simp
next
  case (Cons x xs)
  from Cons.prems(2) obtain s1 where s1: "body x s = Inr s1" and rest: "for_each xs body s1 = Inr s'"
    by (auto split: sum.splits)
  from Cons.prems(1)[OF _ s1] obtain d1 where d1: "s1 = s @ d1" by auto
  have "\<exists>ds. s' = s1 @ ds"
  proof (rule Cons.IH[OF _ rest])
    fix y t t' assume "y \<in> set xs" "body y t = Inr t'"
    then show "\<exists>ds. t' = t @ ds" using Cons.prems(1)[of y t t'] by simp
  qed
  then obtain d2 where "s' = s1 @ d2" by auto
  with d1 show ?case by simp
qed

lemma concat_singletons: "concat (map (\<lambda>x. [f x]) xs) = map f xs"
  by (induction xs) simp_all

lemma concat_filter_product:
  "concat (map (\<lambda>x. concat (map (\<lambda>y. if P (x, y) then [f (x, y)] else []) ys)) xs)
     = map f (filter P (List.product xs ys))"
proof -
  have inner: "concat (map (\<lambda>y. if P (x, y) then [f (x, y)] else []) ys)
      = map f (filter P (map (Pair x) ys))" for x
    by (induction ys) simp_all
  show ?thesis
    by (induction xs) (simp_all add: inner)
qed

lemma outline_loop:
  assumes ok: "\<forall>d. draw_err L d = None"
  shows "for_each [- w..w] (\<lambda>offset_x.
            for_each [- w..w] (\<lambda>offset_y draw.
              if offset_x = 0 \<and> offset_y = 0 then Inr draw
              else draw_text L (cx + offset_x, cy + offset_y) text fl font draw)) draw
         = Inr (draw @ map (\<lambda>(dx, dy). DrawText (cx + dx, cy + dy) text fl font)
                         (outline_offsets w))"
proof -
  let ?P = "\<lambda>(dx, dy). \<not> (dx = 0 \<and> dy = (0::int))"
  let ?f = "\<lambda>(dx, dy). DrawText (cx + dx, cy + dy) text fl font"
  have inner: "for_each [- w..w] (\<lambda>offset_y draw.
              if ox = 0 \<and> offset_y = 0 then Inr draw
              else draw_text L (cx + ox, cy + offset_y) text fl font draw) s
      = Inr (s @ concat (map (\<lambda>y. if ?P (ox, y) then [?f (ox, y)] else []) [- w..w]))" for ox s
    by (rule for_each_append) (simp add: draw_text_ok ok)
  have "for_each [- w..w] (\<lambda>offset_x.
            for_each [- w..w] (\<lambda>offset_y draw.
              if offset_x = 0 \<and> offset_y = 0 then Inr draw
              else draw_text L (cx + offset_x, cy + offset_y) text fl font draw)) draw
      = Inr (draw @ concat (map (\<lambda>x. concat (map (\<lambda>y. if ?P (x, y) then [?f (x, y)] else [])
                [- w..w])) [- w..w]))"
    by (rule for_each_append) (rule inner)
  then show ?thesis
    by (simp only: concat_filter_product outline_offsets_def)
qed

lemma outline_offsets_set:
  "set (outline_offsets w) =
     {(dx, dy). - w \<le> dx \<and> dx \<le> w \<and> - w \<le> dy \<and> dy \<le> w \<and> (dx, dy) \<noteq> (0, 0)}"
  by (auto simp: outline_offsets_def)

lemma outline_offsets_distinct: "distinct (outline_offsets w)"
  by (simp add: outline_offsets_def distinct_product)

lemma outline_offsets_length:
  assumes "0 \<le> w"
  shows "int (length (outline_offsets w)) = (2 * w + 1)\<^sup>2 - 1"
proof -
  let ?xs = "List.product [- w..w] [- w..w]"
  let ?P = "\<lambda>(dx, dy). \<not> (dx = 0 \<and> dy = (0::int))"
  have len: "length ?xs = nat (2 * w + 1) * nat (2 * w + 1)"
    by (simp add: length_product)
  have d: "distinct ?xs" by (simp add: distinct_product)
  have "filter (\<lambda>p. \<not> ?P p) ?xs = filter (\<lambda>p. p = (0, 0)) ?xs"
    by (rule filter_cong) auto
  moreover have "length (filter (\<lambda>p. p = (0, 0)) ?xs) = 1"
  proof -
    have "(0, 0) \<in> set ?xs" using assms by simp
    then have "card ({p. p = (0, 0)} \<inter> set ?xs) = 1"
      by (simp add: Int_absorb2 del: set_product)
    with d show ?thesis by (simp add: distinct_length_filter del: set_product)
  qed
  ultimately have one: "length (filter (\<lambda>p. \<not> ?P p) ?xs) = 1" by (simp only:)
  have "length (filter ?P ?xs) + 1 = nat (2 * w + 1) * nat (2 * w + 1)"
    using sum_length_filter_compl[of ?P ?xs] by (simp only: one len)
  then have "int (length (filter ?P ?xs) + 1) = int (nat (2 * w + 1) * nat (2 * w + 1))"
    by (simp only:)
  moreover have "int (nat (2 * w + 1) * nat (2 * w + 1)) = (2 * w + 1)\<^sup>2"
    using assms by (simp add: power2_eq_square)
  ultimately have "int (length (filter ?P ?xs)) = (2 * w + 1)\<^sup>2 - 1"
    by linarith
  then show ?thesis by (simp only: outline_offsets_def)
qed

lemma outline_offsets_2: "length (outline_offsets 2) = 24"
proof -
  have "int (length (outline_offsets 2)) = 24"
    using outline_offsets_length[of 2] by simp
  then show ?thesis by linarith
qed

section \<open>The effects, call by call\<close>

lemma bind_eq_Inr: "bind m f = Inr y \<longleftrightarrow> (\<exists>v. m = Inr v \<and> f v = Inr y)"
  by (cases m) simp_all

lemma apply_text_effects_at:
  assumes "textbbox L font text = Inr (l, t, r, b)" and "t \<le> b"
  shows "apply_text_effects L draw text (PosTuple [x, y]) font color eff =
     render_effect L draw text font color eff
       (fst (resolve_origin (x, y) (r - l, b - t))) (snd (resolve_origin (x, y) (r - l, b - t)))"
proof -
  have "0 \<le> (of_int (b - t) :: rat) * (375 / 1000)" using assms(2) by simp
  then have "py_int (of_int (b - t) * (375 / 1000)) = \<lfloor>(of_int (b - t) :: rat) * (375 / 1000)\<rfloor>"
    by (rule py_int_nonneg)
  then show ?thesis
    by (simp add: apply_text_effects_def assms(1) read_position_def resolve_origin_def Let_def)
qed

lemma render_effect_typed:
  assumes "e_type e = Some ty"
  shows "render_effect L draw text font color (Some e) cx cy =
     (let st = get_or (e_settings e) empty_settings
      in if ty = ''shadow'' then shadow_effect L draw text font color st cx cy
         else if ty = ''outline'' then outline_effect L draw text font color st cx cy
         else if ty = ''glow'' then glow_effect L draw text font color st cx cy
         else if ty = ''3d_depth'' then depth_effect L draw text font color st cx cy
         else draw_text L (cx, cy) text (FillHex color) font draw)"
  using assms by (simp add: render_effect_def no_keys_def Let_def)

lemma shadow_draws:
  assumes ok: "\<forall>d. draw_err L d = None"
    and col: "hex_to_rgba (get_or (s_color st) ''#000000'') = Inr c"
  shows "shadow_effect L draw text font color st cx cy =
     Inr (draw @
       [DrawText (let so = get_or (s_offset st) [5, 5]
                  in if length so \<ge> 2 then (cx + so ! 0, cy + so ! 1) else (cx + 5, cy + 5))
          text (FillRGBA (with_opacity c (get_or (s_opacity st) (1 / 2)))) font,
        DrawText (cx, cy) text (FillHex color) font])"
  by (simp add: shadow_effect_def col Let_def draw_text_ok ok)

lemma outline_draws:
  assumes ok: "\<forall>d. draw_err L d = None"
    and col: "hex_to_rgba (get_or (s_color st) ''#000000'') = Inr c"
  shows "outline_effect L draw text font color st cx cy =
     Inr (draw @
       map (\<lambda>(dx, dy). DrawText (cx + dx, cy + dy) text
              (FillRGBA (with_opacity c (get_or (s_opacity st) 1))) font)
           (outline_offsets (get_or (s_width st) 2))
       @ [DrawText (cx, cy) text (FillHex color) font])"
  by (simp add: outline_effect_def col Let_def outline_loop[OF ok] draw_text_ok ok)

lemma glow_draws:
  assumes ok: "\<forall>d. draw_err L d = None"
    and col: "hex_to_rgba (get_or (s_color st) ''#FFFFFF'') = Inr (cr, cg, cb, ca)"
  shows "glow_effect L draw text font color st cx cy =
     Inr (draw @
       concat (map (\<lambda>i.
         map (\<lambda>angle. DrawText
                (cx + py_int ((of_int i / of_int (min (get_or (s_radius st) 10) 20))
                               * of_int (get_or (s_radius st) 10) * cos_deg L (of_int angle)),
                 cy + py_int ((of_int i / of_int (min (get_or (s_radius st) 10) 20))
                               * of_int (get_or (s_radius st) 10) * sin_deg L (of_int angle)))
                text
                (FillRGBA (cr, cg, cb,
                   py_int (255 * (get_or (s_opacity st) (7 / 10)
                             * (1 - of_int i / of_int (min (get_or (s_radius st) 10) 20))))))
                font)
             glow_angles)
         [1..min (get_or (s_radius st) 10) 20])
       @ [DrawText (cx, cy) text (FillHex color) font])"
proof -
  let ?r = "get_or (s_radius st) 10"
  let ?o = "get_or (s_opacity st) (7 / 10)"
  let ?steps = "min ?r 20"
  let ?D = "\<lambda>i angle. DrawText
                (cx + py_int ((of_int i / of_int ?steps) * of_int ?r * cos_deg L (of_int angle)),
                 cy + py_int ((of_int i / of_int ?steps) * of_int ?r * sin_deg L (of_int angle)))
                text (FillRGBA (cr, cg, cb, py_int (255 * (?o * (1 - of_int i / of_int ?steps)))))
                font"
  have inner: "for_each glow_angles (\<lambda>angle draw.
        draw_text L (cx + py_int ((of_int i / of_int ?steps) * of_int ?r * cos_deg L (of_int angle)),
                     cy + py_int ((of_int i / of_int ?steps) * of_int ?r * sin_deg L (of_int angle)))
          text (FillRGBA (cr, cg, cb, py_int (255 * (?o * (1 - of_int i / of_int ?steps))))) font draw) s
      = Inr (s @ concat (map (\<lambda>angle. [?D i angle]) glow_angles))" for i s
    by (rule for_each_append) (simp add: draw_text_ok ok)
  have outer: "for_each [1..?steps] (\<lambda>i. for_each glow_angles (\<lambda>angle draw.
        draw_text L (cx + py_int ((of_int i / of_int ?steps) * of_int ?r * cos_deg L (of_int angle)),
                     cy + py_int ((of_int i / of_int ?steps) * of_int ?r * sin_deg L (of_int angle)))
          text (FillRGBA (cr, cg, cb, py_int (255 * (?o * (1 - of_int i / of_int ?steps))))) font draw)) draw
      = Inr (draw @ concat (map (\<lambda>i. map (?D i) glow_angles) [1..?steps]))"
    by (rule for_each_append) (simp only: inner concat_singletons)
  have ok1: "draw_err L d = None" for d using ok by simp
  show ?thesis
    unfolding glow_effect_def Let_def col bind_Inr with_opacity_def prod.case
    by (simp only: outer) (simp only: bind_Inr draw_text_ok[OF ok1] append_assoc)
qed

lemma depth_index:
  assumes "g \<noteq> []" and "1 \<le> i" and "i \<le> n"
  shows "py_index g (min (py_int ((of_int i / of_int n) * of_int (int (length g) - 1)))
                         (int (length g) - 1))
         = Inr (g ! nat (min \<lfloor>(of_int i / of_int n :: rat) * of_int (int (length g) - 1)\<rfloor>
                             (int (length g) - 1)))"
    and "0 \<le> min \<lfloor>(of_int i / of_int n :: rat) * of_int (int (length g) - 1)\<rfloor>
                    (int (length g) - 1)"
    and "min \<lfloor>(of_int i / of_int n :: rat) * of_int (int (length g) - 1)\<rfloor>
             (int (length g) - 1) < int (length g)"
proof -
  let ?q = "(of_int i / of_int n :: rat) * of_int (int (length g) - 1)"
  have len: "1 \<le> int (length g)" using assms(1) by (cases g) simp_all
  have q: "0 \<le> ?q" using assms(2,3) len by simp
  then have fl: "0 \<le> \<lfloor>?q\<rfloor>" by simp
  have pi: "py_int ?q = \<lfloor>?q\<rfloor>" using q by (rule py_int_nonneg)
  show "0 \<le> min \<lfloor>?q\<rfloor> (int (length g) - 1)" using fl len by linarith
  moreover show "min \<lfloor>?q\<rfloor> (int (length g) - 1) < int (length g)" by linarith
  ultimately show "py_index g (min (py_int ?q) (int (length g) - 1))
         = Inr (g ! nat (min \<lfloor>?q\<rfloor> (int (length g) - 1)))"
    unfolding pi py_index_def by (simp only: if_True simp_thms)
qed

lemma depth_draws:
  assumes ok: "\<forall>d. draw_err L d = None"
    and g: "get_or (s_color_gradient st) [''#333333'', ''#666666'', ''#999999''] \<noteq> []"
  shows "depth_effect L draw text font color st cx cy =
     Inr (draw @
       map (\<lambda>i. DrawText
              (cx - py_int (of_int i * (cos_deg L (get_or (s_angle st) 45)
                                          * get_or (s_distance st) 2)),
               cy - py_int (of_int i * (sin_deg L (get_or (s_angle st) 45)
                                          * get_or (s_distance st) 2)))
              text
              (FillHex (get_or (s_color_gradient st) [''#333333'', ''#666666'', ''#999999'']
                 ! nat (min \<lfloor>(of_int i / of_int (get_or (s_layers st) 10) :: rat)
                              * of_int (int (length (get_or (s_color_gradient st)
                                   [''#333333'', ''#666666'', ''#999999''])) - 1)\<rfloor>
                            (int (length (get_or (s_color_gradient st)
                                   [''#333333'', ''#666666'', ''#999999''])) - 1))))
              font)
           (rev [1..get_or (s_layers st) 10])
       @ [DrawText (cx, cy) text (FillHex color) font])"
proof -
  let ?g = "get_or (s_color_gradient st) [''#333333'', ''#666666'', ''#999999'']"
  let ?n = "get_or (s_layers st) 10"
  let ?dx = "cos_deg L (get_or (s_angle st) 45) * get_or (s_distance st) 2"
  let ?dy = "sin_deg L (get_or (s_angle st) 45) * get_or (s_distance st) 2"
  let ?D = "\<lambda>i. DrawText (cx - py_int (of_int i * ?dx), cy - py_int (of_int i * ?dy)) text
              (FillHex (?g ! nat (min \<lfloor>(of_int i / of_int ?n :: rat)
                                        * of_int (int (length ?g) - 1)\<rfloor>
                                     (int (length ?g) - 1)))) font"
  have ok1: "draw_err L d = None" for d using ok by simp
  have loop: "for_each (rev [1..?n]) (\<lambda>i draw.
        bind (py_index ?g (min (py_int ((of_int i / of_int ?n) * of_int (int (length ?g) - 1)))
                               (int (length ?g) - 1)))
          (\<lambda>layer_color. draw_text L (cx - py_int (of_int i * ?dx), cy - py_int (of_int i * ?dy))
                             text (FillHex layer_color) font draw)) draw
      = Inr (draw @ concat (map (\<lambda>i. [?D i]) (rev [1..?n])))"
  proof (rule for_each_append)
    fix i s assume "i \<in> set (rev [1..?n])"
    then have i: "1 \<le> i" "i \<le> ?n" by simp_all
    show "bind (py_index ?g (min (py_int ((of_int i / of_int ?n) * of_int (int (length ?g) - 1)))
                               (int (length ?g) - 1)))
          (\<lambda>layer_color. draw_text L (cx - py_int (of_int i * ?dx), cy - py_int (of_int i * ?dy))
                             text (FillHex layer_color) font s) = Inr (s @ [?D i])"
      by (simp only: depth_index(1)[OF g i] bind_Inr draw_text_ok[OF ok1])
  qed
  show ?thesis
    unfolding depth_effect_def Let_def
    by (simp only: loop) (simp only: bind_Inr draw_text_ok[OF ok1] append_assoc concat_singletons)
qed

lemma effect_last_draw:
  assumes "render_effect L draw text font color eff cx cy = Inr draw'"
  shows "\<exists>ds. draw' = draw @ ds @ [DrawText (cx, cy) text (FillHex color) font]"
proof -
  let ?base = "DrawText (cx, cy) text (FillHex color) font"
  have fin: "\<exists>ds. d' = draw @ ds @ [?base]"
    if "m = Inr d1" "\<exists>ds. d1 = draw @ ds" "draw_text L (cx, cy) text (FillHex color) font d1 = Inr d'"
    for m :: "exn + draw_call list" and d1 d'
  proof -
    from that(2) obtain ds where "d1 = draw @ ds" by blast
    moreover have "d' = d1 @ [?base]" using that(3) by (rule draw_text_extends)
    ultimately have "d' = draw @ ds @ [?base]" by simp
    then show ?thesis by blast
  qed
  have plain: "\<exists>ds. d' = draw @ ds @ [?base]"
    if "draw_text L (cx, cy) text (FillHex color) font draw = Inr d'" for d'
    using draw_text_extends[OF that] by simp
  have step: "\<exists>ds. s' = s @ ds" if "draw_text L xy text fl font s = Inr s'" for xy fl s s'
    using draw_text_extends[OF that] by simp
  have shadow: "\<exists>ds. draw' = draw @ ds @ [?base]"
    if "shadow_effect L draw text font color st cx cy = Inr draw'" for st
    using that unfolding shadow_effect_def Let_def
    by (auto simp: bind_eq_Inr split: prod.splits dest!: draw_text_extends)
  have outline: "\<exists>ds. draw' = draw @ ds @ [?base]"
    if "outline_effect L draw text font color st cx cy = Inr draw'" for st
  proof -
    from that obtain c d1 where
      loop: "for_each [- get_or (s_width st) 2..get_or (s_width st) 2] (\<lambda>offset_x.
              for_each [- get_or (s_width st) 2..get_or (s_width st) 2] (\<lambda>offset_y draw.
                if offset_x = 0 \<and> offset_y = 0 then Inr draw
                else draw_text L (cx + offset_x, cy + offset_y) text
                       (FillRGBA (with_opacity c (get_or (s_opacity st) 1))) font draw)) draw
             = Inr d1"
      and last: "draw_text L (cx, cy) text (FillHex color) font d1 = Inr draw'"
      unfolding outline_effect_def Let_def by (auto simp: bind_eq_Inr)
    have "\<exists>ds. d1 = draw @ ds"
    proof (rule for_each_extends[OF _ loop])
      fix x s s'
      assume "for_each [- get_or (s_width st) 2..get_or (s_width st) 2] (\<lambda>offset_y draw.
                if x = 0 \<and> offset_y = 0 then Inr draw
                else draw_text L (cx + x, cy + offset_y) text
                       (FillRGBA (with_opacity c (get_or (s_opacity st) 1))) font draw) s = Inr s'"
      then show "\<exists>ds. s' = s @ ds"
        by (rule for_each_extends[rotated]) (auto split: if_splits dest!: draw_text_extends)
    qed
    with last show ?thesis by (rule fin[OF loop, rotated -1])
  qed
  have glow: "\<exists>ds. draw' = draw @ ds @ [?base]"
    if "glow_effect L draw text font color st cx cy = Inr draw'" for st
  proof -
    from that obtain body d1 where
      loop: "for_each [1..min (get_or (s_radius st) 10) 20]
               (\<lambda>i. for_each glow_angles (body i)) draw = Inr d1"
      and body: "\<And>i a s. \<exists>xy fl. body i a s = draw_text L xy text fl font s"
      and last: "draw_text L (cx, cy) text (FillHex color) font d1 = Inr draw'"
      unfolding glow_effect_def Let_def by (fastforce simp: bind_eq_Inr)
    have "\<exists>ds. d1 = draw @ ds"
    proof (rule for_each_extends[OF _ loop])
      fix x s s'
      assume "for_each glow_angles (body x) s = Inr s'"
      then show "\<exists>ds. s' = s @ ds"
      proof (rule for_each_extends[rotated])
        fix a t t' assume bt: "body x a t = Inr t'"
        from body[of x a t] obtain xy fl where "body x a t = draw_text L xy text fl font t"
          by blast
        with bt have "draw_text L xy text fl font t = Inr t'" by simp
        then show "\<exists>ds. t' = t @ ds" by (rule step)
      qed
    qed
    with last show ?thesis by (rule fin[OF loop, rotated -1])
  qed
  have depth: "\<exists>ds. draw' = draw @ ds @ [?base]"
    if "depth_effect L draw text font color st cx cy = Inr draw'" for st
  proof -
    from that obtain body d1 where
      loop: "for_each (rev [1..get_or (s_layers st) 10]) body draw = Inr d1"
      and body: "\<And>i s s'. body i s = Inr s' \<Longrightarrow> \<exists>xy fl. draw_text L xy text fl font s = Inr s'"
      and last: "draw_text L (cx, cy) text (FillHex color) font d1 = Inr draw'"
      unfolding depth_effect_def Let_def by (fastforce simp: bind_eq_Inr)
    have "\<exists>ds. d1 = draw @ ds"
    proof (rule for_each_extends[OF _ loop])
      fix x s s' assume "body x s = Inr s'"
      from body[OF this] obtain xy fl where "draw_text L xy text fl font s = Inr s'"
        by blast
      then show "\<exists>ds. s' = s @ ds" by (rule step)
    qed
    with last show ?thesis by (rule fin[OF loop, rotated -1])
  qed
  have legacy: "\<exists>ds. draw' = draw @ ds @ [?base]"
    if "legacy_effect L draw text font color e cx cy = Inr draw'" for e
    using that unfolding legacy_effect_def Let_def
    by (auto simp: bind_eq_Inr split: option.splits dest!: draw_text_extends)
  show ?thesis
    using assms plain shadow outline glow depth legacy
    unfolding render_effect_def Let_def
    by (auto split: option.splits if_splits)
qed

section \<open>PositionResolver and EffectRenderer: the claims\<close>

text \<open>
  Claim C1. When the text measures (left, top, right, bottom) with a height that is not
  negative, the renderer draws every effect relative to the origin
  \<open>(x - width div 2, y - height div 2 - \<lfloor>height * 0.375\<rfloor>)\<close>, where
  \<open>width = right - left\<close> and \<open>height = bottom - top\<close>: this is the origin that
  \<open>render_effect\<close> receives, every render that returns has drawn the base text there
  last, and a render without effects is that one call. It is the origin of the
  specification's formula, and an anchor given as a dictionary with the keys
  \<^verbatim>\<open>x\<close> and \<^verbatim>\<open>y\<close> is drawn as the pair is.
\<close>

theorem draw_origin_formula:
  assumes "textbbox L font tx = Inr (l, t, r, b)" and "t \<le> b"
  shows "apply_text_effects L draw tx (PosTuple [x, y]) font color eff
           = render_effect L draw tx font color eff
               (x - (r - l) div 2)
               (y - (b - t) div 2 - \<lfloor>(of_int (b - t) :: rat) * (375 / 1000)\<rfloor>)
     \<and> (\<forall>draw'. apply_text_effects L draw tx (PosTuple [x, y]) font color eff = Inr draw' \<longrightarrow>
          (\<exists>ds. draw' = draw @ ds @
             [DrawText (x - (r - l) div 2,
                        y - (b - t) div 2 - \<lfloor>(of_int (b - t) :: rat) * (375 / 1000)\<rfloor>)
                tx (FillHex color) font]))
     \<and> (draw_err L (DrawText (x - (r - l) div 2,
                        y - (b - t) div 2 - \<lfloor>(of_int (b - t) :: rat) * (375 / 1000)\<rfloor>)
                tx (FillHex color) font) = None \<longrightarrow>
          apply_text_effects L draw tx (PosTuple [x, y]) font color None
            = Inr (draw @ [DrawText (x - (r - l) div 2,
                        y - (b - t) div 2 - \<lfloor>(of_int (b - t) :: rat) * (375 / 1000)\<rfloor>)
                tx (FillHex color) font]))
     \<and> resolve_origin (x, y) (r - l, b - t)
          = (x - (r - l) div 2,
             y - (b - t) div 2 - \<lfloor>(of_int (b - t) :: rat) * (375 / 1000)\<rfloor>)
     \<and> apply_text_effects L draw tx (PosDict [''x'' \<mapsto> x, ''y'' \<mapsto> y]) font color eff
          = apply_text_effects L draw tx (PosTuple [x, y]) font color eff"
proof -
  let ?cx = "x - (r - l) div 2"
  let ?cy = "y - (b - t) div 2 - \<lfloor>(of_int (b - t) :: rat) * (375 / 1000)\<rfloor>"
  have ro: "resolve_origin (x, y) (r - l, b - t) = (?cx, ?cy)"
    by (simp add: resolve_origin_def)
  have at: "apply_text_effects L draw tx (PosTuple [x, y]) font color eff
           = render_effect L draw tx font color eff ?cx ?cy" for eff
    using apply_text_effects_at[OF assms, of draw x y color eff] by (simp only: ro fst_conv snd_conv)
  have last: "\<exists>ds. draw' = draw @ ds @ [DrawText (?cx, ?cy) tx (FillHex color) font]"
    if "apply_text_effects L draw tx (PosTuple [x, y]) font color eff = Inr draw'" for draw'
    using that unfolding at by (rule effect_last_draw)
  have plain: "apply_text_effects L draw tx (PosTuple [x, y]) font color None
            = Inr (draw @ [DrawText (?cx, ?cy) tx (FillHex color) font])"
    if "draw_err L (DrawText (?cx, ?cy) tx (FillHex color) font) = None"
    unfolding at by (simp only: render_effect_def option.case draw_text_ok[OF that])
  have dict: "apply_text_effects L draw tx (PosDict [''x'' \<mapsto> x, ''y'' \<mapsto> y]) font color eff
          = apply_text_effects L draw tx (PosTuple [x, y]) font color eff"
    by (simp add: apply_text_effects_def read_position_def)
  show ?thesis using at last plain ro dict by blast
qed

theorem draw_origin_formula_witness:
  "apply_text_effects example_lib [] ''ab'' (PosTuple [100, 100]) DefaultFont ''#FFFFFF'' None
     = Inr [DrawText (80, 83) ''ab'' (FillHex ''#FFFFFF'') DefaultFont]
   \<and> resolve_origin (100, 100) (40, 20) = (80, 83)"
proof -
  have bb: "textbbox example_lib DefaultFont ''ab'' = Inr (0, 0, 40, 20)" by simp
  have le: "(0::int) \<le> 20" by simp
  show ?thesis
    using draw_origin_formula[OF bb le, where x = 100 and y = 100 and draw = "[]"
            and color = "''#FFFFFF''" and eff = None, THEN conjunct2, THEN conjunct2]
    by simp
qed



lemma concat_map_cong:
  "(\<And>x. x \<in> set xs \<Longrightarrow> f x = g x) \<Longrightarrow> concat (map f xs) = concat (map g xs)"
  by (induction xs) simp_all

lemma length_concat_rings:
  "length (concat (map (\<lambda>i. map (f i) glow_angles) xs)) = 12 * length xs"
  by (induction xs) (simp_all add: glow_angles_def)

lemma ring_alpha:
  assumes "0 \<le> opac" and "1 \<le> i" and "i \<le> steps"
  shows "py_int (255 * (opac * (1 - of_int i / of_int steps)))
           = \<lfloor>255 * opac * (1 - of_int i / of_int steps)\<rfloor>"
    and "0 \<le> \<lfloor>255 * opac * (1 - of_int i / of_int steps)\<rfloor>"
    and "\<lfloor>255 * opac * (1 - of_int i / of_int steps)\<rfloor> \<le> \<lfloor>255 * opac\<rfloor>"
proof -
  have s: "(0::rat) < of_int steps" using assms(2,3) by simp
  have "(of_int i :: rat) \<le> of_int steps" using assms(3) by simp
  then have le1: "(of_int i / of_int steps :: rat) \<le> 1" using s by (simp add: divide_le_eq)
  have "(0::rat) \<le> of_int i" using assms(2) by simp
  then have ge0: "(0::rat) \<le> of_int i / of_int steps" using s by simp
  have f0: "0 \<le> 1 - (of_int i / of_int steps :: rat)" using le1 by simp
  have f1: "1 - (of_int i / of_int steps :: rat) \<le> 1" using ge0 by simp
  have nn: "0 \<le> 255 * opac * (1 - of_int i / of_int steps)"
    using assms(1) f0 by simp
  have "255 * opac * (1 - of_int i / of_int steps) \<le> 255 * opac * 1"
    using assms(1) f1 by (intro mult_left_mono) simp_all
  then have up: "255 * opac * (1 - of_int i / of_int steps) \<le> 255 * opac" by simp
  show "py_int (255 * (opac * (1 - of_int i / of_int steps)))
           = \<lfloor>255 * opac * (1 - of_int i / of_int steps)\<rfloor>"
    using py_int_nonneg[OF nn] by (simp only: mult.assoc)
  show "0 \<le> \<lfloor>255 * opac * (1 - of_int i / of_int steps)\<rfloor>" using nn by simp
  show "\<lfloor>255 * opac * (1 - of_int i / of_int steps)\<rfloor> \<le> \<lfloor>255 * opac\<rfloor>"
    using up by (rule floor_mono)
qed

lemma glow_draws_floor:
  assumes ok: "\<forall>d. draw_err L d = None"
    and col: "hex_to_rgba (get_or (s_color st) ''#FFFFFF'') = Inr (cr, cg, cb, ca)"
    and rad: "rad = get_or (s_radius st) 10"
    and op: "opac = get_or (s_opacity st) (7 / 10)" "0 \<le> opac"
    and steps: "steps = min rad 20"
  shows "glow_effect L draw text font color st cx cy =
     Inr (draw @
       concat (map (\<lambda>i.
         map (\<lambda>angle. DrawText
                (cx + py_int (of_int rad * of_int i / of_int steps * cos_deg L (of_int angle)),
                 cy + py_int (of_int rad * of_int i / of_int steps * sin_deg L (of_int angle)))
                text
                (FillRGBA (cr, cg, cb, \<lfloor>255 * opac * (1 - of_int i / of_int steps)\<rfloor>))
                font)
             glow_angles)
         [1..steps])
       @ [DrawText (cx, cy) text (FillHex color) font])"
proof -
  have eq: "concat (map (\<lambda>i.
         map (\<lambda>angle. DrawText
                (cx + py_int ((of_int i / of_int steps) * of_int rad * cos_deg L (of_int angle)),
                 cy + py_int ((of_int i / of_int steps) * of_int rad * sin_deg L (of_int angle)))
                text
                (FillRGBA (cr, cg, cb, py_int (255 * (opac * (1 - of_int i / of_int steps)))))
                font)
             glow_angles)
         [1..steps])
     = concat (map (\<lambda>i.
         map (\<lambda>angle. DrawText
                (cx + py_int (of_int rad * of_int i / of_int steps * cos_deg L (of_int angle)),
                 cy + py_int (of_int rad * of_int i / of_int steps * sin_deg L (of_int angle)))
                text
                (FillRGBA (cr, cg, cb, \<lfloor>255 * opac * (1 - of_int i / of_int steps)\<rfloor>))
                font)
             glow_angles)
         [1..steps])"
  proof (rule concat_map_cong)
    fix i assume "i \<in> set [1..steps]"
    then have i: "1 \<le> i" "i \<le> steps" by simp_all
    have r: "(of_int i / of_int steps) * of_int rad = (of_int rad * of_int i / of_int steps :: rat)"
      by simp
    show "map (\<lambda>angle. DrawText
                (cx + py_int ((of_int i / of_int steps) * of_int rad * cos_deg L (of_int angle)),
                 cy + py_int ((of_int i / of_int steps) * of_int rad * sin_deg L (of_int angle)))
                text
                (FillRGBA (cr, cg, cb, py_int (255 * (opac * (1 - of_int i / of_int steps)))))
                font) glow_angles
        = map (\<lambda>angle. DrawText
                (cx + py_int (of_int rad * of_int i / of_int steps * cos_deg L (of_int angle)),
                 cy + py_int (of_int rad * of_int i / of_int steps * sin_deg L (of_int angle)))
                text
                (FillRGBA (cr, cg, cb, \<lfloor>255 * opac * (1 - of_int i / of_int steps)\<rfloor>))
                font) glow_angles"
      by (simp only: r ring_alpha(1)[OF op(2) i])
  qed
  show ?thesis
    unfolding glow_draws[OF ok col] rad[symmetric] op(1)[symmetric] steps[symmetric]
    by (simp only: eq)
qed

lemma example_trig_simps [simp]:
  "cos_deg example_lib a = (case map_of example_trig a of Some (c, s) \<Rightarrow> c | None \<Rightarrow> 0)"
  "sin_deg example_lib a = (case map_of example_trig a of Some (c, s) \<Rightarrow> s | None \<Rightarrow> 0)"
  by (simp_all add: example_lib_def)





text \<open>
  Claim C9. An effects dictionary whose \<^verbatim>\<open>type\<close> is none of
  \<^verbatim>\<open>shadow\<close>, \<^verbatim>\<open>outline\<close>, \<^verbatim>\<open>glow\<close> and
  \<^verbatim>\<open>3d_depth\<close> is rendered exactly as no effect is: when the text is measured
  and the rasterizer accepts the call, the base text is drawn once at the origin and
  nothing is raised; and in the loop over the layers such a layer is drawn as the same
  layer without effects, after which the loop goes on with the layers that follow.
\<close>

theorem unknown_effect_plain:
  assumes ty: "e_type e = Some ty"
    and unk: "ty \<notin> {''shadow'', ''outline'', ''glow'', ''3d_depth''}"
  shows "apply_text_effects L draw tx pos font color (Some e)
           = apply_text_effects L draw tx pos font color None
     \<and> (textbbox L font tx = Inr (l, t, r, b) \<and> t \<le> b
          \<and> resolve_origin (x, y) (r - l, b - t) = (cx, cy)
          \<and> draw_err L (DrawText (cx, cy) tx (FillHex color) font) = None \<longrightarrow>
          apply_text_effects L draw tx (PosTuple [x, y]) font color (Some e)
            = Inr (draw @ [DrawText (cx, cy) tx (FillHex color) font]))
     \<and> (st_effects (t_style layer) = Some e \<longrightarrow>
          for_each (layer # rest) (render_layer L F) draw
            = bind (render_layer L F (layer\<lparr>t_style := (t_style layer)\<lparr>st_effects := None\<rparr>\<rparr>) draw)
                (for_each rest (render_layer L F)))"
proof -
  have re: "render_effect L draw tx font color (Some e) ox oy
      = render_effect L draw tx font color None ox oy" for draw tx font color ox oy
    unfolding render_effect_typed[OF ty] using unk by (simp add: render_effect_def Let_def)
  have same: "apply_text_effects L draw tx pos font color (Some e)
           = apply_text_effects L draw tx pos font color None" for draw tx pos font color
    by (simp add: apply_text_effects_def re)
  have plain: "apply_text_effects L draw tx (PosTuple [x, y]) font color (Some e)
            = Inr (draw @ [DrawText (cx, cy) tx (FillHex color) font])"
    if "textbbox L font tx = Inr (l, t, r, b)" "t \<le> b"
       "resolve_origin (x, y) (r - l, b - t) = (cx, cy)"
       "draw_err L (DrawText (cx, cy) tx (FillHex color) font) = None"
    unfolding same apply_text_effects_at[OF that(1,2)] that(3) fst_conv snd_conv
    by (simp only: render_effect_def option.case draw_text_ok[OF that(4)])
  have loop: "for_each (layer # rest) (render_layer L F) draw
            = bind (render_layer L F (layer\<lparr>t_style := (t_style layer)\<lparr>st_effects := None\<rparr>\<rparr>) draw)
                (for_each rest (render_layer L F))"
    if "st_effects (t_style layer) = Some e"
  proof -
    have "render_layer L F layer draw
        = render_layer L F (layer\<lparr>t_style := (t_style layer)\<lparr>st_effects := None\<rparr>\<rparr>) draw"
      by (simp add: render_layer_def Let_def that same)
    then show ?thesis by (simp add: bind_def)
  qed
  show ?thesis using same plain loop by blast
qed

theorem unknown_effect_plain_witness:
  "apply_text_effects example_lib [] ''ab'' (PosTuple [100, 100]) DefaultFont ''#FFFFFF''
     (Some \<lparr>e_type = Some ''sparkle'', e_settings = None, e_shadow = None\<rparr>)
     = Inr [DrawText (80, 83) ''ab'' (FillHex ''#FFFFFF'') DefaultFont]"
proof -
  let ?e = "\<lparr>e_type = Some ''sparkle'', e_settings = None, e_shadow = None\<rparr>"
  have ty: "e_type ?e = Some ''sparkle''" by simp
  have unk: "''sparkle'' \<notin> {''shadow'', ''outline'', ''glow'', ''3d_depth''}" by simp
  show ?thesis
    using unknown_effect_plain[OF ty unk, where L = example_lib and font = DefaultFont
            and tx = "''ab''" and l = 0 and t = 0 and r = 40 and b = 20 and x = 100 and y = 100
            and cx = 80 and cy = 83 and draw = "[]" and color = "''#FFFFFF''",
            THEN conjunct2, THEN conjunct1]
    by (simp add: resolve_origin_def)
qed




section \<open>FontResolver: the claim\<close>

lemma truetype_cases:
  "truetype F name k = (if truetype_err F name k = None then Inr (FreeTypeFont name k)
                         else Inl (the (truetype_err F name k)))"
  by (simp add: truetype_def split: option.splits)

lemma get_font_try_candidates:
  "get_font_try F font_name font_size = truetype F (hd (font_candidates F font_name)) font_size"
  by (simp add: get_font_try_def font_candidates_def split: option.splits)

lemma font_candidates_one: "length (font_candidates F font_name) = 1"
  by (simp add: font_candidates_def split: option.splits)

text \<open>
  Claim C8. For every font name and size, \<^verbatim>\<open>_get_font\<close> returns a font and
  raises nothing: the font is the first one that loads among the candidate of the name
  (the file of its alias in the fonts directory, else its alias as a system font, else,
  for a name without alias, the name itself) and the system font Arial, and it is the
  built-in default font when neither loads. The alias is looked up under the lower-case
  name. A font that is returned as loaded did load, with the size asked for.
\<close>

theorem get_font_total:
  "get_font F font_name font_size =
     (case find (\<lambda>name. truetype_err F name font_size = None)
             (font_candidates F font_name @ [''Arial'']) of
        Some name \<Rightarrow> FreeTypeFont name font_size
      | None \<Rightarrow> DefaultFont)
   \<and> (\<forall>name k. get_font F font_name font_size = FreeTypeFont name k \<longrightarrow>
         k = font_size \<and> truetype_err F name k = None
         \<and> name \<in> set (font_candidates F font_name @ [''Arial'']))
   \<and> (get_font F font_name font_size = DefaultFont \<longrightarrow>
         (\<forall>name \<in> set (font_candidates F font_name @ [''Arial'']).
            truetype_err F name font_size \<noteq> None))
   \<and> font_candidates F font_name =
       (case map_of dramatic_fonts (lower font_name) of
          Some font_file \<Rightarrow>
            if (endswith font_file ''.ttf'' \<or> endswith font_file ''.otf'')
               \<and> path_exists F (fonts_dir_file font_file)
            then [fonts_dir_file font_file]
            else [font_file]
        | None \<Rightarrow> [font_name])"
proof -
  obtain c where c: "font_candidates F font_name = [c]"
    using font_candidates_one[of F font_name]
    by (cases "font_candidates F font_name") simp_all
  have tryc: "get_font_try F font_name font_size = truetype F c font_size"
    using get_font_try_candidates[of F font_name font_size] c by simp
  have eq: "get_font F font_name font_size =
     (case find (\<lambda>name. truetype_err F name font_size = None)
             (font_candidates F font_name @ [''Arial'']) of
        Some name \<Rightarrow> FreeTypeFont name font_size
      | None \<Rightarrow> DefaultFont)"
    unfolding get_font_def tryc c by (simp add: truetype_cases)
  have loaded: "k = font_size \<and> truetype_err F name k = None
         \<and> name \<in> set (font_candidates F font_name @ [''Arial''])"
    if "get_font F font_name font_size = FreeTypeFont name k" for name k
    using that unfolding eq c by (auto split: if_splits)
  have dflt: "\<forall>name \<in> set (font_candidates F font_name @ [''Arial'']).
            truetype_err F name font_size \<noteq> None"
    if "get_font F font_name font_size = DefaultFont"
    using that unfolding eq c by (auto split: if_splits)
  show ?thesis
  proof (intro conjI allI impI)
    show "get_font F font_name font_size =
     (case find (\<lambda>name. truetype_err F name font_size = None)
             (font_candidates F font_name @ [''Arial'']) of
        Some name \<Rightarrow> FreeTypeFont name font_size
      | None \<Rightarrow> DefaultFont)" by (rule eq)
    show "k = font_size" if "get_font F font_name font_size = FreeTypeFont name k" for name k
      using loaded[OF that] by blast
    show "truetype_err F name k = None"
      if "get_font F font_name font_size = FreeTypeFont name k" for name k
      using loaded[OF that] by blast
    show "name \<in> set (font_candidates F font_name @ [''Arial''])"
      if "get_font F font_name font_size = FreeTypeFont name k" for name k
      using loaded[OF that] by blast
    show "\<forall>name \<in> set (font_candidates F font_name @ [''Arial'']).
            truetype_err F name font_size \<noteq> None"
      if "get_font F font_name font_size = DefaultFont"
      using that by (rule dflt)
    show "font_candidates F font_name =
       (case map_of dramatic_fonts (lower font_name) of
          Some font_file \<Rightarrow>
            if (endswith font_file ''.ttf'' \<or> endswith font_file ''.otf'')
               \<and> path_exists F (fonts_dir_file font_file)
            then [fonts_dir_file font_file]
            else [font_file]
        | None \<Rightarrow> [font_name])" by (rule font_candidates_def)
  qed
qed

lemma lower_examples:
  "lower ''ANTON'' = ''anton''" "lower ''Impact'' = ''impact''"
  "lower ''Comic Sans'' = ''comic sans''" "lower ''boldonse'' = ''boldonse''"
  by (simp_all add: lower_def lower_char_def)

theorem get_font_total_witness:
  "get_font example_fonts ''ANTON'' 120 = FreeTypeFont ''assets/fonts/Anton-Regular.ttf'' 120
   \<and> get_font example_fonts ''Impact'' 120 = FreeTypeFont ''Arial'' 120
   \<and> get_font example_fonts ''Comic Sans'' 80 = FreeTypeFont ''Arial'' 80
   \<and> get_font \<lparr>truetype_err = (\<lambda>name k. Some (External ''cannot open resource'')),
                path_exists = (\<lambda>p. False)\<rparr> ''boldonse'' 120 = DefaultFont"
proof -
  let ?none = "\<lparr>truetype_err = (\<lambda>name k. Some (External ''cannot open resource'')),
                path_exists = (\<lambda>p. False)\<rparr>"
  have c1: "font_candidates example_fonts ''ANTON'' = [''assets/fonts/Anton-Regular.ttf'']"
    by (simp add: font_candidates_def lower_examples dramatic_fonts_def endswith_def
          fonts_dir_file_def example_fonts_def)
  have c2: "font_candidates example_fonts ''Impact'' = [''Impact'']"
    by (simp add: font_candidates_def lower_examples dramatic_fonts_def endswith_def
          fonts_dir_file_def example_fonts_def)
  have c3: "font_candidates example_fonts ''Comic Sans'' = [''Comic Sans'']"
    by (simp add: font_candidates_def lower_examples dramatic_fonts_def)
  have c4: "font_candidates ?none ''boldonse'' = [''Boldonse.ttf'']"
    by (simp add: font_candidates_def lower_examples dramatic_fonts_def endswith_def
          fonts_dir_file_def)
  have e: "truetype_err example_fonts name k =
      (if name = ''Arial'' \<or> startswith name ''assets/fonts/'' then None
        else Some (External ''cannot open resource''))" for name k
    by (simp add: example_fonts_def)
  show ?thesis
    using get_font_total[of example_fonts "''ANTON''" 120, THEN conjunct1]
      get_font_total[of example_fonts "''Impact''" 120, THEN conjunct1]
      get_font_total[of example_fonts "''Comic Sans''" 80, THEN conjunct1]
      get_font_total[of ?none "''boldonse''" 120, THEN conjunct1]
    unfolding c1 c2 c3 c4
    by (simp add: e startswith_def)
qed

section \<open>LayerCompositor: the claims\<close>

lemma add_text_try_result:
  "add_text_try L F IO fs background_path tx position font_size color font_name eff =
     (case resolve_image_path IO background_path of
        Inl e \<Rightarrow> (Inl e, fs)
      | Inr resolved \<Rightarrow>
     (case image_open IO resolved of
        Inl e \<Rightarrow> (Inl e, fs)
      | Inr background \<Rightarrow>
     (case textbbox L (get_font F font_name font_size) tx of
        Inl e \<Rightarrow> (Inl e, fs)
      | Inr bbox \<Rightarrow>
     (case apply_text_effects L [] tx
             (PosTuple [get_or (position ''x'') 10, get_or (position ''y'') 10])
             (get_font F font_name font_size) color eff of
        Inl e \<Rightarrow> (Inl e, fs)
      | Inr draws \<Rightarrow>
     (case mkdir_err IO ''uploads/processed'' of
        Some e \<Rightarrow> (Inl e, fs)
      | None \<Rightarrow>
     (case save_err IO (text_path_of IO background_path) of
        Some e \<Rightarrow> (Inl e, fs)
      | None \<Rightarrow>
     (case upload_image IO (text_path_of IO background_path) of
        Inl e \<Rightarrow> (Inl e, fs @ [(text_path_of IO background_path, background, draws)])
      | Inr url \<Rightarrow>
          (Inr (text_path_of IO background_path,
                \<lparr>info_path = text_path_of IO background_path, info_cloud_url = url,
                 info_text_size = (case bbox of (l, t, r, b) \<Rightarrow> (r - l, b - t)),
                 info_position = (get_or (position ''x'') 10, get_or (position ''y'') 10),
                 info_image_size = (img_width background, img_height background)\<rparr>),
           fs @ [(text_path_of IO background_path, background, draws)]))))))))"
proof (cases "resolve_image_path IO background_path")
  case (Inl e)
  then show ?thesis by (simp add: add_text_try_def)
next
  case s1: (Inr resolved)
  show ?thesis
  proof (cases "image_open IO resolved")
    case (Inl e)
    then show ?thesis by (simp add: add_text_try_def s1)
  next
    case s2: (Inr background)
    show ?thesis
    proof (cases "textbbox L (get_font F font_name font_size) tx")
      case (Inl e)
      then show ?thesis by (simp add: add_text_try_def s1 s2)
    next
      case s3: (Inr bbox)
      obtain l t r b where bb: "bbox = (l, t, r, b)" by (cases bbox) auto
      show ?thesis
      proof (cases "apply_text_effects L [] tx
             (PosTuple [get_or (position ''x'') 10, get_or (position ''y'') 10])
             (get_font F font_name font_size) color eff")
        case (Inl e)
        then show ?thesis by (simp add: add_text_try_def s1 s2 s3 bb Let_def)
      next
        case s4: (Inr draws)
        show ?thesis
        proof (cases "mkdir_err IO ''uploads/processed''")
          case (Some e)
          then show ?thesis by (simp add: add_text_try_def s1 s2 s3 bb s4 Let_def raise_if_def)
        next
          case s5: None
          show ?thesis
          proof (cases "save_err IO (text_path_of IO background_path)")
            case (Some e)
            then show ?thesis
              by (simp add: add_text_try_def s1 s2 s3 bb s4 s5 Let_def raise_if_def)
          next
            case s6: None
            show ?thesis
              by (simp add: add_text_try_def s1 s2 s3 bb s4 s5 s6 Let_def raise_if_def
                    split: sum.splits)
          qed
        qed
      qed
    qed
  qed
qed


text \<open>
  Claim C10. \<^verbatim>\<open>add_dramatic_text\<close> with the empty text and
  \<^verbatim>\<open>with_period=True\<close> raises the \<^verbatim>\<open>ValueError\<close> that wraps the
  \<^verbatim>\<open>IndexError\<close> of \<^verbatim>\<open>processed_text[-1]\<close>, whatever the other
  arguments are, and writes no file.
\<close>

theorem add_dramatic_text_empty:
  "add_dramatic_text L F IO fs background_path [] position font_size color font_name
     True to_uppercase eff
     = (Inl (ValueError ''Failed to add dramatic text: '' IndexError), fs)"
  by (simp add: add_dramatic_text_def upper_def py_index_def)


theorem add_dramatic_text_empty_witness:
  "add_dramatic_text example_lib example_fonts example_io [] ''uploads/original/a.png'' []
     [''x'' \<mapsto> 100, ''y'' \<mapsto> 100] 150 ''#FFFFFF'' ''anton'' True False None
     = (Inl (ValueError ''Failed to add dramatic text: '' IndexError), [])"
  using add_dramatic_text_empty[of example_lib example_fonts example_io "[]"
          "''uploads/original/a.png''" "[''x'' \<mapsto> 100, ''y'' \<mapsto> 100]" 150 "''#FFFFFF''"
          "''anton''" False None]
  by simp

lemma example_add_text_upload_fails:
  "add_text example_lib example_fonts example_io [] ''uploads/original/a.png'' ''ab''
     [''x'' \<mapsto> 100, ''y'' \<mapsto> 100] 120 ''#FFFFFF'' ''Impact'' None
     = (Inl (ValueError ''Failed to add text: '' (External ''upload failed'')),
        [(''uploads/processed/a_text_1700000000.png'', \<lparr>img_width = 640, img_height = 480\<rparr>,
          [DrawText (80, 83) ''ab'' (FillHex ''#FFFFFF'') (FreeTypeFont ''Arial'' 120)])])"
proof -
  have f: "get_font example_fonts ''Impact'' 120 = FreeTypeFont ''Arial'' 120"
    by (simp add: get_font_def get_font_try_def truetype_def lower_examples dramatic_fonts_def
          endswith_def example_fonts_def startswith_def)
  have p: "resolve_image_path example_io ''uploads/original/a.png'' = Inr ''uploads/original/a.png''"
    by (simp add: resolve_image_path_def startswith_def example_io_def)
  have d: "apply_text_effects example_lib [] ''ab'' (PosTuple [100, 100])
      (FreeTypeFont ''Arial'' 120) ''#FFFFFF'' None
      = Inr [DrawText (80, 83) ''ab'' (FillHex ''#FFFFFF'') (FreeTypeFont ''Arial'' 120)]"
    by (simp add: apply_text_effects_def render_effect_def read_position_def draw_text_def
          py_int_def)
  show ?thesis
    unfolding add_text_def add_text_try_result f p
    by (simp add: get_or_def d example_io_def)
qed

lemma example_add_text_missing_file:
  "add_text example_lib example_fonts example_io [] ''nope.png'' ''ab''
     [''x'' \<mapsto> 100, ''y'' \<mapsto> 100] 120 ''#FFFFFF'' ''Impact'' None
     = (Inl (ValueError ''Failed to add text: '' (FileNotFoundError ''File not found: nope.png'')),
        [])"
proof -
  have p: "resolve_image_path example_io ''nope.png''
      = Inl (FileNotFoundError ''File not found: nope.png'')"
    by (simp add: resolve_image_path_def startswith_def example_io_def)
  show ?thesis
    unfolding add_text_def add_text_try_result p by simp
qed


end
